theory Spec2Isabelle
  imports Complex_Main
begin

section \<open>The GTFS import commands of SimplyTransport (cli.py)\<close>

text \<open>
  The two import commands of \<^verbatim>\<open>src/SimplyTransport/cli.py\<close>, \<^verbatim>\<open>importgtfs\<close> and
  \<^verbatim>\<open>importrealtime\<close>, with the directory validator they call. Both commands are
  sequences of calls to collaborators (the file system, the prompt, the importer
  library, the event repository). The model keeps the order of these calls in a trace of
  actions; what a collaborator answers is a parameter (an environment record), and a
  collaborator that may raise answers with a sum or an option. What escapes a command is
  its outcome: it returned, or an exception was raised.
\<close>

subsection \<open>Values, exceptions, actions\<close>

text \<open>The exceptions of Python that the commands can meet; \<open>Exception name\<close> is any other class.\<close>

datatype exn =
    ValueError | AttributeError | IndexError | KeyError | TypeError | UnboundLocalError
  | Exception string

datatype outcome = Returned | Raised exn

text \<open>The values stored in the attribute dictionaries; a dict keeps its insertion order.\<close>

datatype pyval = PInt int | PFloat real | PStr string | PDict "(string \<times> pyval) list"

datatype event_type = GTFS_DATABASE_UPDATED | REALTIME_DATABASE_UPDATED

text \<open>
  What is printed, without the markup; the arguments are the values formatted into it
  (the representation of the importer in the \<^verbatim>\<open>Loaded\<close> message apart).
\<close>

datatype message =
    Importing_GTFS_data
  | Using_directory string
  | Directory_does_not_exist string
  | No_directory_specified string
  | Aborting_import
  | File_does_not_exist string
  | No_supported_importer string
  | Loaded_importer int
  | Finished_import real
  | Importing_GTFS_realtime_data
  | Overriding_URL string
  | Overriding_API_key string
  | Overriding_dataset string
  | Importing_using_dataset string string
  | No_data_returned
  | Entities_returned nat
  | Importing_Stop_Times
  | Importing_Trips

datatype action =
    Print message
  | PathExists string
  | PathIsDir string
  | PathIsFile string
  | Prompt string
  | GTFSImporter string string
  | GetReader string
  | GetRowCount string
  | GetImporterForFile string int string
  | ClearTable string
  | ImportData string
  | CreateEvent event_type string pyval
  | RealTimeImporter string string string
  | GetData
  | ClearTableStopTrip
  | ImportStopTimes
  | ImportTrips

subsection \<open>Strings and dictionaries of Python\<close>

text \<open>\<^verbatim>\<open>s.split(sep)\<close> for a one-character separator: one more segment than separators.\<close>

fun split_str :: "char \<Rightarrow> string \<Rightarrow> string list" where
  "split_str sep [] = [[]]"
| "split_str sep (c # cs) =
     (if c = sep then [] # split_str sep cs
      else (c # hd (split_str sep cs)) # tl (split_str sep cs))"

text \<open>
  \<^verbatim>\<open>s.replace(old, new)\<close>: every occurrence, left to right, without overlap; an empty
  \<open>old\<close> matches before every character and at the end.
\<close>

function replace_str :: "string \<Rightarrow> string \<Rightarrow> string \<Rightarrow> string" where
  "replace_str old new s =
     (if old = [] then new @ concat (map (\<lambda>c. c # new) s)
      else if s = [] then []
      else if take (length old) s = old then new @ replace_str old new (drop (length old) s)
      else hd s # replace_str old new (tl s))"
  by pat_completeness auto
termination
  by (relation "measure (\<lambda>(old, new, s). length s)") auto

declare replace_str.simps [simp del]

text \<open>\<^verbatim>\<open>d[k] = v\<close>: an existing key keeps its place, a new key goes last.\<close>

fun dict_set :: "(string \<times> 'v) list \<Rightarrow> string \<Rightarrow> 'v \<Rightarrow> (string \<times> 'v) list" where
  "dict_set [] k v = [(k, v)]"
| "dict_set ((k', v') # d) k v =
     (if k' = k then (k, v) # d else (k', v') # dict_set d k v)"

text \<open>The truth value of an optional string: \<^verbatim>\<open>None\<close> and \<^verbatim>\<open>""\<close> are false.\<close>

fun truthy :: "string option \<Rightarrow> bool" where
  "truthy None = False"
| "truthy (Some s) = (s \<noteq> [])"

definition quote :: string where
  "quote = [CHR 0x27]"

subsection \<open>The collaborators of the static import\<close>

text \<open>
  The readings of \<^verbatim>\<open>time.perf_counter()\<close>, numbered by call, and \<^verbatim>\<open>round(x, 2)\<close>.
\<close>

record clock_env =
  perf_counter :: "nat \<Rightarrow> real"
  round2 :: "real \<Rightarrow> real"

text \<open>
  \<^verbatim>\<open>os.path\<close>, \<^verbatim>\<open>click.prompt\<close> and the importer library \<^verbatim>\<open>SimplyTransport.lib.gtfs_importers\<close>:
  \<open>'g\<close> is the generic importer, \<open>'r\<close> its reader, \<open>'i\<close> the importer of one file.
  The file system does not change during a run, the prompt always answers with a string,
  and the event repository takes every event it is given.
\<close>

record ('g, 'r, 'i) static_env = clock_env +
  path_exists :: "string \<Rightarrow> bool"
  path_isdir :: "string \<Rightarrow> bool"
  path_isfile :: "string \<Rightarrow> bool"
  click_prompt :: "string \<Rightarrow> string"
  new_GTFSImporter :: "string \<Rightarrow> string \<Rightarrow> exn + 'g"
  get_reader :: "'g \<Rightarrow> exn + 'r"
  get_row_count :: "'g \<Rightarrow> exn + int"
  get_importer_for_file :: "string \<Rightarrow> 'r \<Rightarrow> int \<Rightarrow> string \<Rightarrow> exn + 'i"
  clear_table :: "'i \<Rightarrow> exn option"
  import_data :: "'i \<Rightarrow> exn option"

subsection \<open>gtfs\_directory\_validator\<close>

text \<open>\<^verbatim>\<open>os.path.exists(d) and os.path.isdir(d)\<close>: the second call only after a true first one.\<close>

definition probe_dir :: "('g, 'r, 'i) static_env \<Rightarrow> string \<Rightarrow> bool \<times> action list" where
  "probe_dir env d =
     (if path_exists env d then (path_isdir env d, [PathExists d, PathIsDir d])
      else (False, [PathExists d]))"

definition default_dir :: string where
  "default_dir = ''./gtfs_data/TFI/''"

text \<open>The result is the directory, or \<^verbatim>\<open>None\<close> after the error message (the bare \<^verbatim>\<open>return\<close>).\<close>

definition gtfs_directory_validator ::
  "('g, 'r, 'i) static_env \<Rightarrow> string option \<Rightarrow> string option \<times> action list" where
  "gtfs_directory_validator env dir =
     (if truthy dir then
        (case dir of
           None \<Rightarrow> (None, [])
         | Some d \<Rightarrow>
             if fst (probe_dir env d)
             then (Some d, snd (probe_dir env d) @ [Print (Using_directory d)])
             else (None, snd (probe_dir env d) @ [Print (Directory_does_not_exist d)]))
      else (Some default_dir, [Print (No_directory_specified default_dir)]))"

subsection \<open>importgtfs\<close>

definition files_to_import :: "string list" where
  "files_to_import =
     [''agency.txt'', ''calendar.txt'', ''calendar_dates.txt'', ''routes.txt'',
      ''stops.txt'', ''trips.txt'', ''stop_times.txt'', ''shapes.txt'']"

text \<open>
  The variables of \<^verbatim>\<open>importgtfs\<close> that live across the iterations of its loop;
  \<open>finish\<close> is \<open>None\<close> while the variable is unbound. \<open>clock\<close> counts the calls of
  \<^verbatim>\<open>perf_counter\<close>, \<open>trace\<close> is the run so far.
\<close>

record loop_state =
  attributes_of_total_rows :: "(string \<times> pyval) list"
  total_time_taken :: real
  finish :: "real option"
  clock :: nat
  trace :: "action list"

definition emit :: "action list \<Rightarrow> loop_state \<Rightarrow> loop_state" where
  "emit as st = st\<lparr>trace := trace st @ as\<rparr>"

text \<open>\<^verbatim>\<open>os.path.exists(dir) and os.path.isfile(dir + file)\<close>.\<close>

definition probe_file :: "('g, 'r, 'i) static_env \<Rightarrow> string \<Rightarrow> string \<Rightarrow> bool \<times> action list" where
  "probe_file env dir file =
     (if path_exists env dir then (path_isfile env (dir @ file), [PathExists dir, PathIsFile (dir @ file)])
      else (False, [PathExists dir]))"

text \<open>The three dictionaries that the loop stores under the base name of a file.\<close>

definition missing_entry :: "string \<Rightarrow> pyval" where
  "missing_entry file =
     PDict [(''time_taken(s)'', PInt 0), (''row_count'', PInt 0),
            (''error'', PStr (''File '' @ quote @ file @ quote @ '' does not exist.''))]"

definition unsupported_entry :: "string \<Rightarrow> int \<Rightarrow> pyval" where
  "unsupported_entry file row_count =
     PDict [(''time_taken(s)'', PInt 0), (''row_count'', PInt row_count),
            (''error'', PStr (''File '' @ quote @ file @ quote @ '' does not have a supported importer.''))]"

definition imported_entry :: "real \<Rightarrow> int \<Rightarrow> pyval" where
  "imported_entry time_taken row_count =
     PDict [(''time_taken(s)'', PFloat time_taken), (''row_count'', PInt row_count)]"

definition base_name :: "string \<Rightarrow> string" where
  "base_name file = replace_str ''.txt'' [] file"

definition record_entry :: "string \<Rightarrow> pyval \<Rightarrow> loop_state \<Rightarrow> loop_state" where
  "record_entry file entry st =
     st\<lparr>attributes_of_total_rows := dict_set (attributes_of_total_rows st) (base_name file) entry\<rparr>"

text \<open>
  One iteration of the loop (lines 124 to 169). The first component is the exception that
  leaves the iteration, if any: only the \<^verbatim>\<open>ValueError\<close> of \<^verbatim>\<open>get_importer_for_file\<close> is
  caught. The progress display around \<^verbatim>\<open>clear_table\<close> is left out.
\<close>

definition import_file ::
  "('g, 'r, 'i) static_env \<Rightarrow> string \<Rightarrow> string \<Rightarrow> string \<Rightarrow> loop_state \<Rightarrow> exn option \<times> loop_state" where
  "import_file env dir dataset file st =
     (let file_start = perf_counter env (clock st);
          st1 = emit (snd (probe_file env dir file)) (st\<lparr>clock := Suc (clock st)\<rparr>)
      in if \<not> fst (probe_file env dir file) then
           (None, record_entry file (missing_entry file) (emit [Print (File_does_not_exist file)] st1))
         else
           (let st2 = emit [GTFSImporter file dir] st1 in
            (case new_GTFSImporter env file dir of
               Inl e \<Rightarrow> (Some e, st2)
             | Inr generic_importer \<Rightarrow>
               (let st3 = emit [GetReader file] st2 in
                (case get_reader env generic_importer of
                   Inl e \<Rightarrow> (Some e, st3)
                 | Inr reader \<Rightarrow>
                   (let st4 = emit [GetRowCount file] st3 in
                    (case get_row_count env generic_importer of
                       Inl e \<Rightarrow> (Some e, st4)
                     | Inr row_count \<Rightarrow>
                       (let st5 = emit [GetImporterForFile file row_count dataset] st4 in
                        (case get_importer_for_file env file reader row_count dataset of
                           Inl e \<Rightarrow>
                             (if e = ValueError then
                                (None, record_entry file (unsupported_entry file row_count)
                                         (emit [Print (No_supported_importer file)] st5))
                              else (Some e, st5))
                         | Inr importer \<Rightarrow>
                           (let st6 = emit [Print (Loaded_importer row_count), ClearTable file] st5 in
                            (case clear_table env importer of
                               Some e \<Rightarrow> (Some e, st6)
                             | None \<Rightarrow>
                               (let st7 = emit [ImportData file] st6 in
                                (case import_data env importer of
                                   Some e \<Rightarrow> (Some e, st7)
                                 | None \<Rightarrow>
                                   (let fin = perf_counter env (clock st7);
                                        time_taken = round2 env (fin - file_start)
                                    in (None, record_entry file (imported_entry time_taken row_count)
                                                (st7\<lparr>clock := Suc (clock st7), finish := Some fin,
                                                     total_time_taken := total_time_taken st7 + time_taken\<rparr>))))))))))))))))"

text \<open>The \<^verbatim>\<open>for\<close> loop: an exception that leaves an iteration leaves the loop.\<close>

fun import_files ::
  "('g, 'r, 'i) static_env \<Rightarrow> string \<Rightarrow> string \<Rightarrow> string list \<Rightarrow> loop_state \<Rightarrow> exn option \<times> loop_state" where
  "import_files env dir dataset [] st = (None, st)"
| "import_files env dir dataset (file # files) st =
     (case import_file env dir dataset file st of
        (Some e, st') \<Rightarrow> (Some e, st')
      | (None, st') \<Rightarrow> import_files env dir dataset files st')"

text \<open>Lines 96 and 97: \<^verbatim>\<open>dir.split("/")[-2]\<close>, which needs two segments.\<close>

definition dataset_of_dir :: "string \<Rightarrow> exn + string" where
  "dataset_of_dir dir =
     (let dir_path = split_str (CHR ''/'') dir
      in if length dir_path < 2 then Inl IndexError
         else Inr (dir_path ! (length dir_path - 2)))"

definition static_attributes :: "string \<Rightarrow> loop_state \<Rightarrow> pyval" where
  "static_attributes dataset st =
     PDict [(''dataset'', PStr dataset),
            (''totals'', PDict (attributes_of_total_rows st)),
            (''total_time_taken(s)'', PFloat (total_time_taken st))]"

definition static_event :: "string \<Rightarrow> loop_state \<Rightarrow> action" where
  "static_event dataset st =
     CreateEvent GTFS_DATABASE_UPDATED ''GTFS static data updated with latest schedules''
       (static_attributes dataset st)"

definition initial_state :: "action list \<Rightarrow> loop_state" where
  "initial_state tr =
     \<lparr>attributes_of_total_rows = [], total_time_taken = 0, finish = None, clock = 2, trace = tr\<rparr>"

text \<open>
  The command: its outcome and its trace. \<^verbatim>\<open>dir\<close> is \<^verbatim>\<open>None\<close> when the option is not
  given. The last line reads \<^verbatim>\<open>finish\<close>, which only a completed import has bound.
\<close>

definition importgtfs :: "('g, 'r, 'i) static_env \<Rightarrow> string option \<Rightarrow> outcome \<times> action list" where
  "importgtfs env dir_option =
     (let tr1 = [Print Importing_GTFS_data] @ snd (gtfs_directory_validator env dir_option)
      in case fst (gtfs_directory_validator env dir_option) of
           None \<Rightarrow> (Raised AttributeError, tr1)
         | Some dir \<Rightarrow>
           (case dataset_of_dir dir of
              Inl e \<Rightarrow> (Raised e, tr1)
            | Inr dataset \<Rightarrow>
              let tr2 = tr1 @ [Prompt dataset] in
              if click_prompt env dataset \<noteq> ''y'' then (Returned, tr2 @ [Print Aborting_import])
              else
                (let start = perf_counter env 1 in
                 (case import_files env dir dataset files_to_import (initial_state tr2) of
                    (Some e, st) \<Rightarrow> (Raised e, trace st)
                  | (None, st) \<Rightarrow>
                      (let tr3 = trace st @ [static_event dataset st] in
                       (case finish st of
                          None \<Rightarrow> (Raised UnboundLocalError, tr3)
                        | Some fin \<Rightarrow>
                            (Returned, tr3 @ [Print (Finished_import (round2 env (fin - start)))])))))))"

text \<open>The trace of the command when its loop starts, and the loop run from there.\<close>

definition start_trace :: "('g, 'r, 'i) static_env \<Rightarrow> string option \<Rightarrow> string \<Rightarrow> action list" where
  "start_trace env dir_option dataset =
     [Print Importing_GTFS_data] @ snd (gtfs_directory_validator env dir_option) @ [Prompt dataset]"

abbreviation run_loop ::
  "('g, 'r, 'i) static_env \<Rightarrow> string option \<Rightarrow> string \<Rightarrow> string \<Rightarrow> exn option \<times> loop_state" where
  "run_loop env dir_option dir dataset \<equiv>
     import_files env dir dataset files_to_import (initial_state (start_trace env dir_option dataset))"

subsection \<open>importrealtime\<close>

text \<open>The instance of \<^verbatim>\<open>RealTimeImporter\<close>: the three arguments of its constructor.\<close>

record realtime_importer =
  rt_url :: string
  rt_api_key :: string
  rt_dataset :: string

text \<open>
  Modelled from the spec: the type of what \<^verbatim>\<open>get_data\<close> returns is declared in
  \<^verbatim>\<open>SimplyTransport.lib.gtfs_realtime_importers\<close>, which is not among the sources. A
  feed that is not \<^verbatim>\<open>None\<close> is a decoded message: a dictionary from keys to decoded
  values, without duplicate keys. Nothing makes it hold the key \<^verbatim>\<open>entity\<close>.
\<close>

datatype json =
    JNull | JBool bool | JNumber real | JString string
  | JArray "json list" | JObject "(string \<times> json) list"

type_synonym feed_message = "(string \<times> json) list"

text \<open>\<^verbatim>\<open>len(v)\<close>: strings, lists and dictionaries have a length, nothing else has.\<close>

fun py_len :: "json \<Rightarrow> exn + nat" where
  "py_len (JString s) = Inr (length s)"
| "py_len (JArray vs) = Inr (length vs)"
| "py_len (JObject d) = Inr (length d)"
| "py_len _ = Inl TypeError"

text \<open>Line 229, \<^verbatim>\<open>len(data['entity'])\<close>: a missing key is a \<^verbatim>\<open>KeyError\<close>.\<close>

definition entity_count :: "feed_message \<Rightarrow> exn + nat" where
  "entity_count data =
     (case map_of data ''entity'' of
        None \<Rightarrow> Inl KeyError
      | Some v \<Rightarrow> py_len v)"

text \<open>The settings and the methods of the realtime importer; \<^verbatim>\<open>get_data\<close> may return \<^verbatim>\<open>None\<close>.\<close>

record realtime_env = clock_env +
  GTFS_TFI_REALTIME_URL :: string
  GTFS_TFI_API_KEY_1 :: string
  GTFS_TFI_DATASET :: string
  get_data :: "realtime_importer \<Rightarrow> exn + feed_message option"
  clear_table_stop_trip :: "realtime_importer \<Rightarrow> exn option"
  import_stop_times :: "realtime_importer \<Rightarrow> feed_message \<Rightarrow> exn + int"
  import_trips :: "realtime_importer \<Rightarrow> feed_message \<Rightarrow> exn + int"

text \<open>An option of the command replaces the setting when it is given and not empty.\<close>

fun override :: "string option \<Rightarrow> string \<Rightarrow> (string \<Rightarrow> message) \<Rightarrow> string \<times> action list" where
  "override None setting m = (setting, [])"
| "override (Some v) setting m = (if v \<noteq> [] then (v, [Print (m v)]) else (setting, []))"

definition realtime_attributes :: "string \<Rightarrow> int \<Rightarrow> int \<Rightarrow> real \<Rightarrow> pyval" where
  "realtime_attributes dataset total_trips total_stop_times time_taken =
     PDict [(''dataset'', PStr dataset),
            (''total_trips'', PInt total_trips),
            (''total_stop_times'', PInt total_stop_times),
            (''time_taken(s)'', PFloat time_taken)]"

definition realtime_event :: "string \<Rightarrow> int \<Rightarrow> int \<Rightarrow> real \<Rightarrow> action" where
  "realtime_event dataset total_trips total_stop_times time_taken =
     CreateEvent REALTIME_DATABASE_UPDATED ''Realtime database updated with new realtime information''
       (realtime_attributes dataset total_trips total_stop_times time_taken)"

text \<open>Lines 199 to 217: the importer that the command builds from its options and the settings.\<close>

definition realtime_importer_of ::
  "realtime_env \<Rightarrow> string option \<Rightarrow> string option \<Rightarrow> string option \<Rightarrow> realtime_importer" where
  "realtime_importer_of env url apikey dataset =
     \<lparr>rt_url = fst (override url (GTFS_TFI_REALTIME_URL env) Overriding_URL),
      rt_api_key = fst (override apikey (GTFS_TFI_API_KEY_1 env) Overriding_API_key),
      rt_dataset = fst (override dataset (GTFS_TFI_DATASET env) Overriding_dataset)\<rparr>"

definition importrealtime ::
  "realtime_env \<Rightarrow> string option \<Rightarrow> string option \<Rightarrow> string option \<Rightarrow> outcome \<times> action list" where
  "importrealtime env url apikey dataset =
     (let start = perf_counter env 0;
          importer = realtime_importer_of env url apikey dataset;
          realtime_dataset = rt_dataset importer;
          tr1 = [Print Importing_GTFS_realtime_data]
                @ snd (override url (GTFS_TFI_REALTIME_URL env) Overriding_URL)
                @ snd (override apikey (GTFS_TFI_API_KEY_1 env) Overriding_API_key)
                @ snd (override dataset (GTFS_TFI_DATASET env) Overriding_dataset)
                @ [RealTimeImporter (rt_url importer) (rt_api_key importer) realtime_dataset,
                   Print (Importing_using_dataset realtime_dataset (rt_url importer)),
                   GetData]
      in (case get_data env importer of
            Inl e \<Rightarrow> (Raised e, tr1)
          | Inr None \<Rightarrow> (Returned, tr1 @ [Print No_data_returned])
          | Inr (Some data) \<Rightarrow>
              (case entity_count data of
                 Inl e \<Rightarrow> (Raised e, tr1)
               | Inr entities \<Rightarrow>
              (let tr2 = tr1 @ [Print (Entities_returned entities), ClearTableStopTrip] in
               (case clear_table_stop_trip env importer of
                  Some e \<Rightarrow> (Raised e, tr2)
                | None \<Rightarrow>
                    (let tr3 = tr2 @ [Print Importing_Stop_Times, ImportStopTimes] in
                     (case import_stop_times env importer data of
                        Inl e \<Rightarrow> (Raised e, tr3)
                      | Inr total_stop_times \<Rightarrow>
                          (let tr4 = tr3 @ [Print Importing_Trips, ImportTrips] in
                           (case import_trips env importer data of
                              Inl e \<Rightarrow> (Raised e, tr4)
                            | Inr total_trips \<Rightarrow>
                                (let finish = perf_counter env 1;
                                     time_taken = round2 env (finish - start)
                                 in (Returned,
                                     tr4 @ [realtime_event realtime_dataset total_trips total_stop_times
                                              time_taken,
                                            Print (Finished_import time_taken)])))))))))))"

subsection \<open>The importer registry\<close>

text \<open>
  Modelled from the spec: \<^verbatim>\<open>get_importer_for_file\<close> lives in
  \<^verbatim>\<open>SimplyTransport.lib.gtfs_importers\<close>, which is not among the sources. The spec
  has it dispatch by exact filename match against a fixed table of eight supported static
  files and fail on any other filename; the failure is the \<^verbatim>\<open>ValueError\<close> that
  \<^verbatim>\<open>importgtfs\<close> catches. The importer it returns is one of eight kinds and keeps the
  reader, the row count and the dataset it was given. \<open>table_get_importer_for_file\<close> is
  that dispatch on any table, \<open>spec_get_importer_for_file\<close> the one on the table of the
  eight files.
\<close>

datatype importer_kind =
    AgencyImporter | CalendarImporter | CalendarDateImporter | RouteImporter
  | StopImporter | TripImporter | StopTimeImporter | ShapeImporter

definition importer_table :: "(string \<times> importer_kind) list" where
  "importer_table =
     [(''agency.txt'', AgencyImporter), (''calendar.txt'', CalendarImporter),
      (''calendar_dates.txt'', CalendarDateImporter), (''routes.txt'', RouteImporter),
      (''stops.txt'', StopImporter), (''trips.txt'', TripImporter),
      (''stop_times.txt'', StopTimeImporter), (''shapes.txt'', ShapeImporter)]"

definition table_get_importer_for_file ::
  "(string \<times> importer_kind) list \<Rightarrow> string \<Rightarrow> 'r \<Rightarrow> int \<Rightarrow> string
     \<Rightarrow> exn + (importer_kind \<times> 'r \<times> int \<times> string)" where
  "table_get_importer_for_file table file reader row_count dataset =
     (case map_of table file of
        None \<Rightarrow> Inl ValueError
      | Some kind \<Rightarrow> Inr (kind, reader, row_count, dataset))"

definition spec_get_importer_for_file ::
  "string \<Rightarrow> 'r \<Rightarrow> int \<Rightarrow> string \<Rightarrow> exn + (importer_kind \<times> 'r \<times> int \<times> string)" where
  "spec_get_importer_for_file = table_get_importer_for_file importer_table"

subsection \<open>What a trace shows\<close>

fun is_event :: "action \<Rightarrow> bool" where
  "is_event (CreateEvent t m a) = True"
| "is_event _ = False"

text \<open>The calls that change a table.\<close>

fun is_mutation :: "action \<Rightarrow> bool" where
  "is_mutation (ClearTable f) = True"
| "is_mutation (ImportData f) = True"
| "is_mutation ClearTableStopTrip = True"
| "is_mutation ImportStopTimes = True"
| "is_mutation ImportTrips = True"
| "is_mutation _ = False"

fun is_insertion :: "action \<Rightarrow> bool" where
  "is_insertion ImportStopTimes = True"
| "is_insertion ImportTrips = True"
| "is_insertion _ = False"

text \<open>
  An iteration of the loop that raises nothing has exactly one of three ends: the message
  of a missing file, the message of an unsupported file, or the call of \<^verbatim>\<open>import_data\<close>.
  The files of these actions, in the order of the trace, are the files processed.
\<close>

fun processed_file :: "action \<Rightarrow> string list" where
  "processed_file (Print (File_does_not_exist f)) = [f]"
| "processed_file (Print (No_supported_importer f)) = [f]"
| "processed_file (ImportData f) = [f]"
| "processed_file _ = []"

definition processed_files :: "action list \<Rightarrow> string list" where
  "processed_files tr = concat (map processed_file tr)"

fun probed_path :: "action \<Rightarrow> string list" where
  "probed_path (PathIsFile p) = [p]"
| "probed_path _ = []"

definition probed_paths :: "action list \<Rightarrow> string list" where
  "probed_paths tr = concat (map probed_path tr)"

subsection \<open>The shape of the reports\<close>

datatype pytype = TInt | TFloat | TStr | TDict

fun type_of :: "pyval \<Rightarrow> pytype" where
  "type_of (PInt n) = TInt"
| "type_of (PFloat x) = TFloat"
| "type_of (PStr s) = TStr"
| "type_of (PDict d) = TDict"

text \<open>The keys of a dictionary with the types of their values, in order.\<close>

fun signature_of :: "pyval \<Rightarrow> (string \<times> pytype) list" where
  "signature_of (PDict d) = map (\<lambda>(k, v). (k, type_of v)) d"
| "signature_of _ = []"

fun dict_get :: "pyval \<Rightarrow> string \<Rightarrow> pyval option" where
  "dict_get (PDict d) k = map_of d k"
| "dict_get _ k = None"

text \<open>The attribute dictionaries of the events of a trace, and one entry of the only report.\<close>

fun event_attributes :: "action \<Rightarrow> pyval list" where
  "event_attributes (CreateEvent t m a) = [a]"
| "event_attributes _ = []"

definition reports :: "action list \<Rightarrow> pyval list" where
  "reports tr = concat (map event_attributes tr)"

definition report_entry :: "action list \<Rightarrow> string \<Rightarrow> pyval option" where
  "report_entry tr k =
     (case reports tr of
        [a] \<Rightarrow> (case dict_get a ''totals'' of Some totals \<Rightarrow> dict_get totals k | None \<Rightarrow> None)
      | _ \<Rightarrow> None)"

text \<open>An entry of one file: the time taken, the row count, and the error if there is one.\<close>

definition file_entry_shape :: "pyval \<Rightarrow> bool" where
  "file_entry_shape v \<longleftrightarrow>
     signature_of v = [(''time_taken(s)'', TFloat), (''row_count'', TInt)] \<or>
     signature_of v = [(''time_taken(s)'', TInt), (''row_count'', TInt), (''error'', TStr)]"

definition static_report_shape :: "pyval \<Rightarrow> bool" where
  "static_report_shape a \<longleftrightarrow>
     signature_of a = [(''dataset'', TStr), (''totals'', TDict), (''total_time_taken(s)'', TFloat)] \<and>
     (case dict_get a ''totals'' of
        Some (PDict totals) \<Rightarrow>
          list_all (\<lambda>(k, v). k \<in> set (map base_name files_to_import) \<and> file_entry_shape v) totals
      | _ \<Rightarrow> False)"

definition realtime_report_shape :: "pyval \<Rightarrow> bool" where
  "realtime_report_shape a \<longleftrightarrow>
     signature_of a = [(''dataset'', TStr), (''total_trips'', TInt), (''total_stop_times'', TInt),
                       (''time_taken(s)'', TFloat)]"

text \<open>
  The shape of the reports as the spec words it, to compare: the keys of the report of a
  static run, of the entry of one file, and of the report of a realtime run.
\<close>

definition documented_static_keys :: "pyval \<Rightarrow> bool" where
  "documented_static_keys a \<longleftrightarrow>
     dict_get a ''dataset'' \<noteq> None \<and> dict_get a ''total_time_taken_s'' \<noteq> None"

definition documented_entry_keys :: "pyval \<Rightarrow> bool" where
  "documented_entry_keys v \<longleftrightarrow>
     dict_get v ''time_taken_s'' \<noteq> None \<and> dict_get v ''row_count'' \<noteq> None"

definition documented_realtime_keys :: "pyval \<Rightarrow> bool" where
  "documented_realtime_keys a \<longleftrightarrow>
     dict_get a ''dataset'' \<noteq> None \<and> dict_get a ''total_trips'' \<noteq> None
     \<and> dict_get a ''total_stop_times'' \<noteq> None \<and> dict_get a ''time_taken_s'' \<noteq> None"

text \<open>An entry of a skipped file: no time taken, and an error.\<close>

definition skipped_entry :: "pyval \<Rightarrow> bool" where
  "skipped_entry v \<longleftrightarrow>
     signature_of v = [(''time_taken(s)'', TInt), (''row_count'', TInt), (''error'', TStr)] \<and>
     dict_get v ''time_taken(s)'' = Some (PInt 0)"

subsection \<open>How one iteration of the loop ends\<close>

text \<open>
  No exception leaves the iteration for \<open>file\<close>: the file is missing, or every call
  of the iteration returns, the \<^verbatim>\<open>ValueError\<close> of the registry apart.
\<close>

definition file_passes :: "('g, 'r, 'i) static_env \<Rightarrow> string \<Rightarrow> string \<Rightarrow> string \<Rightarrow> bool" where
  "file_passes env dir dataset file \<longleftrightarrow>
     \<not> fst (probe_file env dir file) \<or>
     (case new_GTFSImporter env file dir of
        Inl e \<Rightarrow> False
      | Inr g \<Rightarrow>
          (case get_reader env g of
             Inl e \<Rightarrow> False
           | Inr reader \<Rightarrow>
               (case get_row_count env g of
                  Inl e \<Rightarrow> False
                | Inr row_count \<Rightarrow>
                    (case get_importer_for_file env file reader row_count dataset of
                       Inl e \<Rightarrow> e = ValueError
                     | Inr importer \<Rightarrow>
                         clear_table env importer = None \<and> import_data env importer = None))))"

text \<open>The file never reaches the import: it is missing, or the registry refuses it.\<close>

definition file_skipped :: "('g, 'r, 'i) static_env \<Rightarrow> string \<Rightarrow> string \<Rightarrow> string \<Rightarrow> bool" where
  "file_skipped env dir dataset file \<longleftrightarrow>
     \<not> fst (probe_file env dir file) \<or>
     (case new_GTFSImporter env file dir of
        Inl e \<Rightarrow> False
      | Inr g \<Rightarrow>
          (case get_reader env g of
             Inl e \<Rightarrow> False
           | Inr reader \<Rightarrow>
               (case get_row_count env g of
                  Inl e \<Rightarrow> False
                | Inr row_count \<Rightarrow>
                    (case get_importer_for_file env file reader row_count dataset of
                       Inl e \<Rightarrow> e = ValueError
                     | Inr importer \<Rightarrow> False))))"

text \<open>
  The file reaches its importer, and \<^verbatim>\<open>clear_table\<close> or \<^verbatim>\<open>import_data\<close> raises \<open>e\<close>.
\<close>

definition import_raises :: "('g, 'r, 'i) static_env \<Rightarrow> string \<Rightarrow> string \<Rightarrow> string \<Rightarrow> exn \<Rightarrow> bool" where
  "import_raises env dir dataset file e \<longleftrightarrow>
     fst (probe_file env dir file) \<and>
     (case new_GTFSImporter env file dir of
        Inl e' \<Rightarrow> False
      | Inr g \<Rightarrow>
          (case get_reader env g of
             Inl e' \<Rightarrow> False
           | Inr reader \<Rightarrow>
               (case get_row_count env g of
                  Inl e' \<Rightarrow> False
                | Inr row_count \<Rightarrow>
                    (case get_importer_for_file env file reader row_count dataset of
                       Inl e' \<Rightarrow> False
                     | Inr importer \<Rightarrow>
                         clear_table env importer = Some e \<or>
                         (clear_table env importer = None \<and> import_data env importer = Some e)))))"

subsection \<open>Sample environments\<close>

text \<open>
  A file system given by its directories and files, an answer to the prompt, two rows in
  every file, an importer for every file (named by the file), and the results of
  \<^verbatim>\<open>clear_table\<close> and \<^verbatim>\<open>import_data\<close>.
\<close>

definition sample_env ::
  "string list \<Rightarrow> string list \<Rightarrow> string \<Rightarrow> (string \<Rightarrow> exn option) \<Rightarrow> (string \<Rightarrow> exn option)
     \<Rightarrow> (string, string, string) static_env" where
  "sample_env dirs files answer clear_result import_result =
     \<lparr>perf_counter = real, round2 = (\<lambda>x. x),
      path_exists = (\<lambda>p. p \<in> set dirs \<or> p \<in> set files),
      path_isdir = (\<lambda>p. p \<in> set dirs),
      path_isfile = (\<lambda>p. p \<in> set files),
      click_prompt = (\<lambda>dataset. answer),
      new_GTFSImporter = (\<lambda>file dir. Inr (dir @ file)),
      get_reader = (\<lambda>g. Inr g),
      get_row_count = (\<lambda>g. Inr 2),
      get_importer_for_file = (\<lambda>file reader row_count dataset. Inr file),
      clear_table = clear_result,
      import_data = import_result\<rparr>"

text \<open>The default directory with \<^verbatim>\<open>agency.txt\<close> alone, imported without an error.\<close>

definition agency_only_env :: "(string, string, string) static_env" where
  "agency_only_env =
     sample_env [''./gtfs_data/TFI/''] [''./gtfs_data/TFI/agency.txt''] ''y'' (\<lambda>i. None) (\<lambda>i. None)"

text \<open>The report of the import of that directory: \<^verbatim>\<open>agency.txt\<close> imported, seven files missing.\<close>

definition agency_only_report :: pyval where
  "agency_only_report =
     PDict [(''dataset'', PStr ''TFI''),
            (''totals'',
             PDict [(''agency'', imported_entry 1 2),
                    (''calendar'', missing_entry ''calendar.txt''),
                    (''calendar_dates'', missing_entry ''calendar_dates.txt''),
                    (''routes'', missing_entry ''routes.txt''),
                    (''stops'', missing_entry ''stops.txt''),
                    (''trips'', missing_entry ''trips.txt''),
                    (''stop_times'', missing_entry ''stop_times.txt''),
                    (''shapes'', missing_entry ''shapes.txt'')]),
            (''total_time_taken(s)'', PFloat 1)]"

text \<open>
  Every file but \<^verbatim>\<open>routes.txt\<close> is there, and \<^verbatim>\<open>import_data\<close> raises on a malformed
  row of \<^verbatim>\<open>stops.txt\<close>.
\<close>

definition malformed_stops_env :: "(string, string, string) static_env" where
  "malformed_stops_env =
     sample_env [''./gtfs_data/TFI/'']
       [''./gtfs_data/TFI/agency.txt'', ''./gtfs_data/TFI/calendar.txt'',
        ''./gtfs_data/TFI/calendar_dates.txt'', ''./gtfs_data/TFI/stops.txt'',
        ''./gtfs_data/TFI/trips.txt'', ''./gtfs_data/TFI/stop_times.txt'',
        ''./gtfs_data/TFI/shapes.txt'']
       ''y'' (\<lambda>i. None)
       (\<lambda>i. if i = ''stops.txt'' then Some (Exception ''RowConversionError'') else None)"

text \<open>
  All eight files are there, and \<^verbatim>\<open>import_data\<close> raises on the header of
  \<^verbatim>\<open>calendar.txt\<close>.
\<close>

definition header_mismatch_env :: "(string, string, string) static_env" where
  "header_mismatch_env =
     sample_env [''./gtfs_data/TFI/''] (map (\<lambda>file. ''./gtfs_data/TFI/'' @ file) files_to_import)
       ''y'' (\<lambda>i. None)
       (\<lambda>i. if i = ''calendar.txt'' then Some (Exception ''HeaderMismatch'') else None)"

text \<open>The default directory without any file.\<close>

definition empty_directory_env :: "(string, string, string) static_env" where
  "empty_directory_env = sample_env [''./gtfs_data/TFI/''] [] ''y'' (\<lambda>i. None) (\<lambda>i. None)"

text \<open>A file system with the one directory \<open>d\<close> and the files \<open>files\<close>.\<close>

definition directory_env :: "string \<Rightarrow> string list \<Rightarrow> (string, string, string) static_env" where
  "directory_env d files = sample_env [d] files ''y'' (\<lambda>i. None) (\<lambda>i. None)"

text \<open>A file system with a registry that dispatches on \<open>table\<close>.\<close>

definition registry_env ::
  "(string \<times> importer_kind) list \<Rightarrow> string list \<Rightarrow> string list
     \<Rightarrow> (string, string, importer_kind \<times> string \<times> int \<times> string) static_env" where
  "registry_env table dirs files =
     \<lparr>perf_counter = real, round2 = (\<lambda>x. x),
      path_exists = (\<lambda>p. p \<in> set dirs \<or> p \<in> set files),
      path_isdir = (\<lambda>p. p \<in> set dirs),
      path_isfile = (\<lambda>p. p \<in> set files),
      click_prompt = (\<lambda>dataset. ''y''),
      new_GTFSImporter = (\<lambda>file dir. Inr (dir @ file)),
      get_reader = (\<lambda>g. Inr g),
      get_row_count = (\<lambda>g. Inr 2),
      get_importer_for_file = table_get_importer_for_file table,
      clear_table = (\<lambda>i. None),
      import_data = (\<lambda>i. None)\<rparr>"

text \<open>
  A registry that does not know \<^verbatim>\<open>agency.txt\<close>, with a directory that holds
  \<^verbatim>\<open>agency.txt\<close> alone, and with one that holds \<^verbatim>\<open>calendar.txt\<close> too.
\<close>

definition agency_refused_env ::
  "(string, string, importer_kind \<times> string \<times> int \<times> string) static_env" where
  "agency_refused_env =
     registry_env (tl importer_table) [''./gtfs_data/TFI/''] [''./gtfs_data/TFI/agency.txt'']"

definition agency_refused_calendar_env ::
  "(string, string, importer_kind \<times> string \<times> int \<times> string) static_env" where
  "agency_refused_calendar_env =
     registry_env (tl importer_table) [''./gtfs_data/TFI/'']
       [''./gtfs_data/TFI/agency.txt'', ''./gtfs_data/TFI/calendar.txt'']"

text \<open>
  A realtime feed service: what \<^verbatim>\<open>get_data\<close> answers, seven stop times and three trips
  counted by the imports.
\<close>

definition sample_realtime_env :: "(exn + feed_message option) \<Rightarrow> realtime_env" where
  "sample_realtime_env answer =
     \<lparr>perf_counter = real, round2 = (\<lambda>x. x),
      GTFS_TFI_REALTIME_URL = ''https://api.example/gtfsr'',
      GTFS_TFI_API_KEY_1 = ''key'',
      GTFS_TFI_DATASET = ''TFI'',
      get_data = (\<lambda>importer. answer),
      clear_table_stop_trip = (\<lambda>importer. None),
      import_stop_times = (\<lambda>importer data. Inr 7),
      import_trips = (\<lambda>importer data. Inr 3)\<rparr>"

text \<open>A feed of three entities, and the body of a refused request, which has no entity.\<close>

definition three_entity_feed :: feed_message where
  "three_entity_feed =
     [(''header'', JObject [(''gtfs_realtime_version'', JString ''2.0'')]),
      (''entity'', JArray [JObject [(''id'', JString ''1'')], JObject [(''id'', JString ''2'')],
                           JObject [(''id'', JString ''3'')]])]"

definition refused_request_feed :: feed_message where
  "refused_request_feed =
     [(''statusCode'', JNumber 401), (''message'', JString ''Access denied due to invalid subscription key'')]"

section \<open>One iteration and the loop\<close>

declare import_files.simps(2) [simp del]

subsection \<open>The trace of an iteration and of the loop\<close>

lemma processed_files_append: "processed_files (xs @ ys) = processed_files xs @ processed_files ys"
  by (simp add: processed_files_def)

lemma probed_paths_append: "probed_paths (xs @ ys) = probed_paths xs @ probed_paths ys"
  by (simp add: probed_paths_def)

lemma probe_file_actions:
  "filter is_event (snd (probe_file env dir file)) = []"
  "processed_files (snd (probe_file env dir file)) = []"
  "probed_paths (snd (probe_file env dir file)) = (if path_exists env dir then [dir @ file] else [])"
  by (simp_all add: probe_file_def processed_files_def probed_paths_def)

lemma validator_actions:
  "filter is_event (snd (gtfs_directory_validator env d)) = []"
  "processed_files (snd (gtfs_directory_validator env d)) = []"
  "probed_paths (snd (gtfs_directory_validator env d)) = []"
  by (simp_all add: gtfs_directory_validator_def probe_dir_def processed_files_def probed_paths_def
        split: option.split)

lemma import_file_trace:
  "\<exists>as. trace (snd (import_file env dir ds f st)) = trace st @ snd (probe_file env dir f) @ as
     \<and> filter is_event as = []
     \<and> (fst (import_file env dir ds f st) = None \<longrightarrow> processed_files as = [f])
     \<and> probed_paths as = []"
  by (simp add: import_file_def Let_def emit_def record_entry_def processed_files_def probed_paths_def
        split: sum.split option.split)

lemma file_passes_iff: "fst (import_file env dir ds f st) = None \<longleftrightarrow> file_passes env dir ds f"
  by (simp add: import_file_def file_passes_def Let_def split: sum.split option.split)

lemma import_files_Cons_None:
  "fst (import_file env dir ds f st) = None \<Longrightarrow>
   import_files env dir ds (f # fs) st = import_files env dir ds fs (snd (import_file env dir ds f st))"
  by (cases "import_file env dir ds f st") (simp add: import_files.simps(2))

lemma import_files_Cons_Some:
  "fst (import_file env dir ds f st) = Some e \<Longrightarrow>
   import_files env dir ds (f # fs) st = (Some e, snd (import_file env dir ds f st))"
  by (cases "import_file env dir ds f st") (simp add: import_files.simps(2))

lemma import_files_passes:
  "\<forall>f\<in>set fs. file_passes env dir ds f \<Longrightarrow> fst (import_files env dir ds fs st) = None"
proof (induction fs arbitrary: st)
  case Nil
  show ?case by simp
next
  case (Cons f fs)
  have "fst (import_file env dir ds f st) = None"
    using Cons.prems by (simp add: file_passes_iff)
  then show ?case
    using Cons by (simp add: import_files_Cons_None)
qed

lemma import_files_append:
  "fst (import_files env dir ds fs st) = None \<Longrightarrow>
   import_files env dir ds (fs @ gs) st = import_files env dir ds gs (snd (import_files env dir ds fs st))"
proof (induction fs arbitrary: st)
  case Nil
  show ?case by simp
next
  case (Cons f fs)
  show ?case
  proof (cases "fst (import_file env dir ds f st)")
    case None
    then show ?thesis
      using Cons by (simp add: import_files_Cons_None)
  next
    case (Some e)
    then show ?thesis
      using Cons.prems by (simp add: import_files_Cons_Some)
  qed
qed

lemma import_files_trace:
  "\<exists>as. trace (snd (import_files env dir ds fs st)) = trace st @ as
     \<and> filter is_event as = []
     \<and> (fst (import_files env dir ds fs st) = None \<longrightarrow> processed_files as = fs)"
proof (induction fs arbitrary: st)
  case Nil
  show ?case by (simp add: processed_files_def)
next
  case (Cons f fs)
  let ?st1 = "snd (import_file env dir ds f st)"
  let ?p = "snd (probe_file env dir f)"
  obtain as1 where as1: "trace ?st1 = trace st @ ?p @ as1"
    "filter is_event as1 = []"
    "fst (import_file env dir ds f st) = None \<longrightarrow> processed_files as1 = [f]"
    using import_file_trace [of env dir ds f st] by (elim exE conjE) (rule that)
  show ?case
  proof (cases "fst (import_file env dir ds f st)")
    case (Some e)
    have step: "import_files env dir ds (f # fs) st = (Some e, ?st1)"
      using Some by (rule import_files_Cons_Some)
    show ?thesis
    proof (intro exI conjI)
      show "trace (snd (import_files env dir ds (f # fs) st)) = trace st @ (?p @ as1)"
        using as1(1) step by simp
      show "filter is_event (?p @ as1) = []"
        using as1(2) by (simp add: probe_file_actions)
      show "fst (import_files env dir ds (f # fs) st) = None \<longrightarrow> processed_files (?p @ as1) = f # fs"
        using step by simp
    qed
  next
    case None
    obtain as2 where as2:
      "trace (snd (import_files env dir ds fs ?st1)) = trace ?st1 @ as2"
      "filter is_event as2 = []"
      "fst (import_files env dir ds fs ?st1) = None \<longrightarrow> processed_files as2 = fs"
      using Cons.IH [of ?st1] by (elim exE conjE) (rule that)
    have step: "import_files env dir ds (f # fs) st = import_files env dir ds fs ?st1"
      using None by (rule import_files_Cons_None)
    show ?thesis
    proof (intro exI conjI)
      show "trace (snd (import_files env dir ds (f # fs) st)) = trace st @ (?p @ as1 @ as2)"
        using as1(1) as2(1) step by simp
      show "filter is_event (?p @ as1 @ as2) = []"
        using as1(2) as2(2) by (simp add: probe_file_actions)
      show "fst (import_files env dir ds (f # fs) st) = None
              \<longrightarrow> processed_files (?p @ as1 @ as2) = f # fs"
        using as1(3) as2(3) None step by (simp add: probe_file_actions processed_files_append)
    qed
  qed
qed


subsection \<open>Dictionary updates and entries\<close>

lemma map_fst_dict_set_old: "k \<in> fst ` set d \<Longrightarrow> map fst (dict_set d k v) = map fst d"
  by (induction d) force+

lemma map_fst_dict_set_new: "k \<notin> fst ` set d \<Longrightarrow> map fst (dict_set d k v) = map fst d @ [k]"
  by (induction d) auto

lemma map_fst_dict_set:
  "map fst (dict_set d k v) = (if k \<in> fst ` set d then map fst d else map fst d @ [k])"
  by (simp add: map_fst_dict_set_old map_fst_dict_set_new)

lemma map_of_dict_set: "map_of (dict_set d k v) = (map_of d)(k \<mapsto> v)"
  by (induction d) auto

lemma list_all_dict_set: "list_all P d \<Longrightarrow> P (k, v) \<Longrightarrow> list_all P (dict_set d k v)"
  by (induction d) auto

lemma entry_shapes:
  "file_entry_shape (missing_entry f)"
  "file_entry_shape (unsupported_entry f n)"
  "file_entry_shape (imported_entry t n)"
  "skipped_entry (missing_entry f)"
  "skipped_entry (unsupported_entry f n)"
  by (simp_all add: file_entry_shape_def skipped_entry_def missing_entry_def unsupported_entry_def
        imported_entry_def)

subsection \<open>The ends of an iteration\<close>

lemma import_file_missing:
  "\<not> fst (probe_file env dir f) \<Longrightarrow>
   import_file env dir ds f st =
     (None, record_entry f (missing_entry f)
        (emit (snd (probe_file env dir f) @ [Print (File_does_not_exist f)]) (st\<lparr>clock := Suc (clock st)\<rparr>)))"
  by (simp add: import_file_def Let_def emit_def)

lemma import_file_unsupported:
  assumes "fst (probe_file env dir f)"
    and "new_GTFSImporter env f dir = Inr g"
    and "get_reader env g = Inr r"
    and "get_row_count env g = Inr n"
    and "get_importer_for_file env f r n ds = Inl ValueError"
  shows "import_file env dir ds f st =
     (None, record_entry f (unsupported_entry f n)
        (emit (snd (probe_file env dir f) @
               [GTFSImporter f dir, GetReader f, GetRowCount f, GetImporterForFile f n ds,
                Print (No_supported_importer f)]) (st\<lparr>clock := Suc (clock st)\<rparr>)))"
  using assms by (simp add: import_file_def Let_def emit_def)

lemma import_file_imported:
  assumes "fst (probe_file env dir f)"
    and "new_GTFSImporter env f dir = Inr g"
    and "get_reader env g = Inr r"
    and "get_row_count env g = Inr n"
    and "get_importer_for_file env f r n ds = Inr i"
    and "clear_table env i = None"
    and "import_data env i = None"
  shows "import_file env dir ds f st =
     (None, record_entry f
        (imported_entry (round2 env (perf_counter env (Suc (clock st)) - perf_counter env (clock st))) n)
        (emit (snd (probe_file env dir f) @
               [GTFSImporter f dir, GetReader f, GetRowCount f, GetImporterForFile f n ds,
                Print (Loaded_importer n), ClearTable f, ImportData f])
           (st\<lparr>clock := Suc (Suc (clock st)),
               finish := Some (perf_counter env (Suc (clock st))),
               total_time_taken := total_time_taken st
                 + round2 env (perf_counter env (Suc (clock st)) - perf_counter env (clock st))\<rparr>)))"
  using assms by (simp add: import_file_def Let_def emit_def record_entry_def)

lemma file_passes_cases:
  assumes "file_passes env dir ds f"
  obtains (missing) "\<not> fst (probe_file env dir f)"
  | (unsupported) g r n where "fst (probe_file env dir f)" "new_GTFSImporter env f dir = Inr g"
      "get_reader env g = Inr r" "get_row_count env g = Inr n"
      "get_importer_for_file env f r n ds = Inl ValueError"
  | (imported) g r n i where "fst (probe_file env dir f)" "new_GTFSImporter env f dir = Inr g"
      "get_reader env g = Inr r" "get_row_count env g = Inr n"
      "get_importer_for_file env f r n ds = Inr i" "clear_table env i = None" "import_data env i = None"
  using assms unfolding file_passes_def
  by (cases "fst (probe_file env dir f)") (auto split: sum.split_asm)

lemma file_skipped_cases:
  assumes "file_skipped env dir ds f"
  obtains (missing) "\<not> fst (probe_file env dir f)"
  | (unsupported) g r n where "fst (probe_file env dir f)" "new_GTFSImporter env f dir = Inr g"
      "get_reader env g = Inr r" "get_row_count env g = Inr n"
      "get_importer_for_file env f r n ds = Inl ValueError"
  using assms unfolding file_skipped_def
  by (cases "fst (probe_file env dir f)") (auto split: sum.split_asm)

lemma import_file_keeps_shape:
  assumes "list_all P (attributes_of_total_rows st)"
    and "\<And>v. file_entry_shape v \<Longrightarrow> P (base_name f, v)"
  shows "list_all P (attributes_of_total_rows (snd (import_file env dir ds f st)))"
  using assms
  by (simp add: import_file_def Let_def emit_def record_entry_def entry_shapes list_all_dict_set
        split: sum.split option.split)

lemma import_file_keys:
  assumes "fst (import_file env dir ds f st) = None"
  shows "map fst (attributes_of_total_rows (snd (import_file env dir ds f st)))
     = (if base_name f \<in> fst ` set (attributes_of_total_rows st)
        then map fst (attributes_of_total_rows st)
        else map fst (attributes_of_total_rows st) @ [base_name f])"
proof -
  have "file_passes env dir ds f"
    using assms by (simp add: file_passes_iff)
  then show ?thesis
  proof (cases rule: file_passes_cases)
    case missing
    then show ?thesis
      by (simp add: import_file_missing record_entry_def emit_def map_fst_dict_set)
  next
    case (unsupported g r n)
    then show ?thesis
      by (simp add: import_file_unsupported record_entry_def emit_def map_fst_dict_set)
  next
    case (imported g r n i)
    then show ?thesis
      by (simp add: import_file_imported record_entry_def emit_def map_fst_dict_set)
  qed
qed

lemma import_file_other_key:
  "k \<noteq> base_name f \<Longrightarrow>
   map_of (attributes_of_total_rows (snd (import_file env dir ds f st))) k
     = map_of (attributes_of_total_rows st) k"
  by (simp add: import_file_def Let_def emit_def record_entry_def map_of_dict_set
        split: sum.split option.split)

lemma import_file_skipped:
  assumes "file_skipped env dir ds f"
  shows "fst (import_file env dir ds f st) = None"
    and "finish (snd (import_file env dir ds f st)) = finish st"
    and "total_time_taken (snd (import_file env dir ds f st)) = total_time_taken st"
    and "list_all (\<lambda>(k, v). skipped_entry v) (attributes_of_total_rows st) \<Longrightarrow>
         list_all (\<lambda>(k, v). skipped_entry v) (attributes_of_total_rows (snd (import_file env dir ds f st)))"
  using assms
  by (cases rule: file_skipped_cases;
      simp add: import_file_missing import_file_unsupported record_entry_def emit_def
        list_all_dict_set entry_shapes)+

lemma import_file_raises:
  "import_raises env dir ds f e \<Longrightarrow>
   fst (import_file env dir ds f st) = Some e
   \<and> (last (trace (snd (import_file env dir ds f st))) = ClearTable f
      \<or> last (trace (snd (import_file env dir ds f st))) = ImportData f)
   \<and> attributes_of_total_rows (snd (import_file env dir ds f st)) = attributes_of_total_rows st"
  by (auto simp add: import_file_def import_raises_def Let_def emit_def
        split: sum.split_asm)

subsection \<open>The command around the loop\<close>

lemma base_names:
  "map base_name files_to_import =
     [''agency'', ''calendar'', ''calendar_dates'', ''routes'', ''stops'', ''trips'', ''stop_times'', ''shapes'']"
  by (simp add: files_to_import_def base_name_def replace_str.simps)

lemma processed_files_simps:
  "processed_files [] = []"
  "processed_files (a # xs) = processed_file a @ processed_files xs"
  "processed_files (xs @ ys) = processed_files xs @ processed_files ys"
  by (simp_all add: processed_files_def)

lemma reports_simps:
  "reports [] = []"
  "reports (a # xs) = event_attributes a @ reports xs"
  "reports (xs @ ys) = reports xs @ reports ys"
  by (simp_all add: reports_def)

lemma reports_no_event: "filter is_event tr = [] \<Longrightarrow> reports tr = []"
proof (induction tr)
  case Nil
  show ?case by (simp add: reports_simps)
next
  case (Cons a tr)
  then show ?case by (cases a) (simp_all add: reports_simps)
qed

lemma probed_paths_simps:
  "probed_paths [] = []"
  "probed_paths (a # xs) = probed_path a @ probed_paths xs"
  "probed_paths (xs @ ys) = probed_paths xs @ probed_paths ys"
  by (simp_all add: probed_paths_def)

lemma start_trace_actions:
  "filter is_event (start_trace env dir_option dataset) = []"
  "processed_files (start_trace env dir_option dataset) = []"
  "probed_paths (start_trace env dir_option dataset) = []"
  by (simp_all add: start_trace_def validator_actions processed_files_simps probed_paths_simps)

lemma importgtfs_loop_raised:
  assumes "fst (gtfs_directory_validator env dir_option) = Some dir"
    and "dataset_of_dir dir = Inr dataset"
    and "click_prompt env dataset = ''y''"
    and "fst (run_loop env dir_option dir dataset) = Some e"
  shows "importgtfs env dir_option = (Raised e, trace (snd (run_loop env dir_option dir dataset)))"
  using assms by (simp add: importgtfs_def Let_def split_beta start_trace_def)

lemma importgtfs_loop_passed:
  assumes "fst (gtfs_directory_validator env dir_option) = Some dir"
    and "dataset_of_dir dir = Inr dataset"
    and "click_prompt env dataset = ''y''"
    and "fst (run_loop env dir_option dir dataset) = None"
    and "st = snd (run_loop env dir_option dir dataset)"
  shows "importgtfs env dir_option =
     (case finish st of
        None \<Rightarrow> (Raised UnboundLocalError, trace st @ [static_event dataset st])
      | Some fin \<Rightarrow>
          (Returned, trace st @ [static_event dataset st,
                                 Print (Finished_import (round2 env (fin - perf_counter env 1)))]))"
  using assms by (simp add: importgtfs_def Let_def split_beta start_trace_def split: option.split)

subsection \<open>The totals after the loop\<close>

lemma import_files_keys:
  "fst (import_files env dir ds fs st) = None \<Longrightarrow> distinct (map base_name fs) \<Longrightarrow>
   base_name ` set fs \<inter> fst ` set (attributes_of_total_rows st) = {} \<Longrightarrow>
   map fst (attributes_of_total_rows (snd (import_files env dir ds fs st)))
     = map fst (attributes_of_total_rows st) @ map base_name fs"
proof (induction fs arbitrary: st)
  case Nil
  show ?case by simp
next
  case (Cons f fs)
  let ?st1 = "snd (import_file env dir ds f st)"
  have none: "fst (import_file env dir ds f st) = None"
  proof (cases "fst (import_file env dir ds f st)")
    case None
    then show ?thesis .
  next
    case (Some e)
    then show ?thesis
      using Cons.prems(1) by (simp add: import_files_Cons_Some)
  qed
  have step: "import_files env dir ds (f # fs) st = import_files env dir ds fs ?st1"
    using none by (rule import_files_Cons_None)
  have new: "base_name f \<notin> fst ` set (attributes_of_total_rows st)"
    using Cons.prems(3) by auto
  have keys1: "map fst (attributes_of_total_rows ?st1)
                 = map fst (attributes_of_total_rows st) @ [base_name f]"
    using none new by (simp add: import_file_keys)
  have "fst ` set (attributes_of_total_rows ?st1)
          = insert (base_name f) (fst ` set (attributes_of_total_rows st))"
    using arg_cong [OF keys1, of set] by simp
  then have disj: "base_name ` set fs \<inter> fst ` set (attributes_of_total_rows ?st1) = {}"
    using Cons.prems(2,3) by auto
  have "map fst (attributes_of_total_rows (snd (import_files env dir ds fs ?st1)))
          = map fst (attributes_of_total_rows ?st1) @ map base_name fs"
    using Cons.IH [of ?st1] Cons.prems(1,2) disj step by simp
  then show ?case
    using step keys1 by simp
qed

lemma takeWhile_before_event:
  "filter is_event xs = [] \<Longrightarrow> is_event a \<Longrightarrow> takeWhile (\<lambda>a. \<not> is_event a) (xs @ a # ys) = xs"
  by (induction xs) (auto split: if_split_asm)

lemma split_at_first: "x \<in> set xs \<Longrightarrow> \<exists>post. xs = takeWhile (\<lambda>y. y \<noteq> x) xs @ x # post"
  by (induction xs) auto

lemma run_loop_no_event: "filter is_event (trace (snd (run_loop env dir_option dir dataset))) = []"
proof -
  obtain as where as:
    "trace (snd (run_loop env dir_option dir dataset))
       = trace (initial_state (start_trace env dir_option dataset)) @ as"
    "filter is_event as = []"
    using import_files_trace [of env dir dataset files_to_import
            "initial_state (start_trace env dir_option dataset)"]
    by (elim exE conjE) (rule that)
  show ?thesis
    using as by (simp add: initial_state_def start_trace_actions)
qed

lemma file_skipped_passes: "file_skipped env dir ds f \<Longrightarrow> file_passes env dir ds f"
  by (auto simp: file_skipped_def file_passes_def split: sum.split)

lemma import_files_skipped:
  assumes "\<forall>f\<in>set fs. file_skipped env dir ds f"
  shows "finish (snd (import_files env dir ds fs st)) = finish st
       \<and> total_time_taken (snd (import_files env dir ds fs st)) = total_time_taken st
       \<and> (list_all (\<lambda>(k, v). skipped_entry v) (attributes_of_total_rows st) \<longrightarrow>
            list_all (\<lambda>(k, v). skipped_entry v)
              (attributes_of_total_rows (snd (import_files env dir ds fs st))))"
  using assms
proof (induction fs arbitrary: st)
  case Nil
  show ?case by simp
next
  case (Cons f fs)
  have f: "file_skipped env dir ds f" and fs: "\<forall>f\<in>set fs. file_skipped env dir ds f"
    using Cons.prems by simp_all
  have step: "import_files env dir ds (f # fs) st
                = import_files env dir ds fs (snd (import_file env dir ds f st))"
    using import_file_skipped(1) [OF f] by (rule import_files_Cons_None)
  show ?case
    using Cons.IH [OF fs, of "snd (import_file env dir ds f st)"] import_file_skipped [OF f, of st]
    by (simp add: step)
qed

lemma import_files_other_key:
  "k \<notin> base_name ` set fs \<Longrightarrow>
   map_of (attributes_of_total_rows (snd (import_files env dir ds fs st))) k
     = map_of (attributes_of_total_rows st) k"
proof (induction fs arbitrary: st)
  case Nil
  show ?case by simp
next
  case (Cons f fs)
  have k: "k \<noteq> base_name f" "k \<notin> base_name ` set fs"
    using Cons.prems by auto
  show ?case
  proof (cases "fst (import_file env dir ds f st)")
    case None
    then show ?thesis
      using Cons.IH [OF k(2), of "snd (import_file env dir ds f st)"] k(1)
      by (simp add: import_files_Cons_None import_file_other_key)
  next
    case (Some e)
    then show ?thesis
      using k(1) by (simp add: import_files_Cons_Some import_file_other_key)
  qed
qed

lemma import_files_missing_entry:
  "f \<in> set fs \<Longrightarrow> distinct (map base_name fs) \<Longrightarrow> \<not> fst (probe_file env dir f) \<Longrightarrow>
   fst (import_files env dir ds fs st) = None \<Longrightarrow>
   map_of (attributes_of_total_rows (snd (import_files env dir ds fs st))) (base_name f)
     = Some (missing_entry f)"
proof (induction fs arbitrary: st)
  case Nil
  then show ?case by simp
next
  case (Cons g gs)
  let ?st1 = "snd (import_file env dir ds g st)"
  have none: "fst (import_file env dir ds g st) = None"
  proof (cases "fst (import_file env dir ds g st)")
    case None
    then show ?thesis .
  next
    case (Some e)
    then show ?thesis
      using Cons.prems(4) by (simp add: import_files_Cons_Some)
  qed
  have step: "import_files env dir ds (g # gs) st = import_files env dir ds gs ?st1"
    using none by (rule import_files_Cons_None)
  show ?case
  proof (cases "f \<in> set gs")
    case True
    then show ?thesis
      using Cons.IH [of ?st1] Cons.prems step by simp
  next
    case False
    then have fg: "g = f"
      using Cons.prems(1) by simp
    have "base_name f \<notin> base_name ` set gs"
      using Cons.prems(2) fg by simp
    then have "map_of (attributes_of_total_rows (snd (import_files env dir ds gs ?st1))) (base_name f)
                 = map_of (attributes_of_total_rows ?st1) (base_name f)"
      by (rule import_files_other_key)
    also have "\<dots> = Some (missing_entry f)"
      using Cons.prems(3) fg by (simp add: import_file_missing record_entry_def map_of_dict_set)
    finally show ?thesis
      using step by simp
  qed
qed

lemma distinct_base_names: "distinct (map base_name files_to_import)"
  by (simp add: base_names)

lemma import_files_keeps_shape:
  assumes "list_all P (attributes_of_total_rows st)"
    and "\<And>f v. f \<in> set fs \<Longrightarrow> file_entry_shape v \<Longrightarrow> P (base_name f, v)"
  shows "list_all P (attributes_of_total_rows (snd (import_files env dir ds fs st)))"
  using assms
proof (induction fs arbitrary: st)
  case Nil
  then show ?case by simp
next
  case (Cons f fs)
  have one: "list_all P (attributes_of_total_rows (snd (import_file env dir ds f st)))"
    using Cons.prems by (simp add: import_file_keeps_shape)
  show ?case
  proof (cases "fst (import_file env dir ds f st)")
    case None
    then show ?thesis
      using Cons.IH [OF one] Cons.prems(2) by (simp add: import_files_Cons_None)
  next
    case (Some e)
    then show ?thesis
      using one by (simp add: import_files_Cons_Some)
  qed
qed

lemma run_loop_shape:
  "static_report_shape (static_attributes dataset (snd (run_loop env dir_option dir dataset)))"
proof -
  have "list_all (\<lambda>(k, v). k \<in> set (map base_name files_to_import) \<and> file_entry_shape v)
          (attributes_of_total_rows (snd (run_loop env dir_option dir dataset)))"
    by (rule import_files_keeps_shape) (simp_all add: initial_state_def)
  then show ?thesis
    by (simp add: static_report_shape_def static_attributes_def)
qed

lemma no_event_member: "filter is_event tr = [] \<Longrightarrow> CreateEvent t m a \<notin> set tr"
  by (auto simp: filter_empty_conv)

lemma importgtfs_events:
  "CreateEvent t m a \<in> set (snd (importgtfs env dir_option)) \<Longrightarrow>
   t = GTFS_DATABASE_UPDATED \<and> static_report_shape a"
proof (cases "fst (gtfs_directory_validator env dir_option)")
  case None
  assume "CreateEvent t m a \<in> set (snd (importgtfs env dir_option))"
  then show ?thesis
    using None no_event_member [OF validator_actions(1), of t m a env dir_option]
    by (simp add: importgtfs_def)
next
  case (Some dir)
  assume mem: "CreateEvent t m a \<in> set (snd (importgtfs env dir_option))"
  show ?thesis
  proof (cases "dataset_of_dir dir")
    case (Inl e)
    then show ?thesis
      using mem Some no_event_member [OF validator_actions(1), of t m a env dir_option]
      by (simp add: importgtfs_def)
  next
    case (Inr dataset)
    show ?thesis
    proof (cases "click_prompt env dataset = ''y''")
      case False
      then show ?thesis
        using mem Some Inr no_event_member [OF validator_actions(1), of t m a env dir_option]
        by (simp add: importgtfs_def)
    next
      case True
      have loop: "CreateEvent t m a \<notin> set (trace (snd (run_loop env dir_option dir dataset)))"
        using run_loop_no_event by (rule no_event_member)
      show ?thesis
      proof (cases "fst (run_loop env dir_option dir dataset)")
        case (Some e)
        then show ?thesis
          using mem loop importgtfs_loop_raised [OF \<open>fst (gtfs_directory_validator env dir_option) = Some dir\<close> Inr True Some]
          by simp
      next
        case None
        have "CreateEvent t m a = static_event dataset (snd (run_loop env dir_option dir dataset))"
          using mem loop importgtfs_loop_passed [OF \<open>fst (gtfs_directory_validator env dir_option) = Some dir\<close> Inr True None refl]
          by (simp split: option.split_asm)
        then show ?thesis
          by (simp add: static_event_def run_loop_shape)
      qed
    qed
  qed
qed

lemma override_no_event: "CreateEvent t m a \<notin> set (snd (override opt setting msg))"
  by (cases opt) simp_all

lemma importrealtime_events:
  "CreateEvent t m a \<in> set (snd (importrealtime env url apikey dataset)) \<Longrightarrow>
   t = REALTIME_DATABASE_UPDATED \<and> realtime_report_shape a"
  by (auto simp add: importrealtime_def Let_def override_no_event realtime_event_def
        realtime_attributes_def realtime_report_shape_def
        split: sum.split_asm option.split_asm)

subsection \<open>Directory strings and probed paths\<close>

lemma split_str_nonempty: "split_str sep s \<noteq> []"
  by (induction s) auto

lemma split_str_append:
  "split_str sep (xs @ sep # ys) = split_str sep xs @ split_str sep ys"
proof (induction xs)
  case Nil
  show ?case by simp
next
  case (Cons c cs)
  then show ?case
    by (cases "split_str sep cs") (simp_all add: split_str_nonempty)
qed

lemma split_str_no_sep: "sep \<notin> set s \<Longrightarrow> split_str sep s = [s]"
  by (induction s) auto

lemma dataset_of_dir_slash:
  assumes "CHR ''/'' \<notin> set leaf"
  shows "dataset_of_dir (parent @ ''/'' @ leaf) = Inr (last (split_str (CHR ''/'') parent))"
proof -
  have "split_str (CHR ''/'') (parent @ ''/'' @ leaf) = split_str (CHR ''/'') parent @ [leaf]"
    using assms split_str_append [of "CHR ''/''" parent leaf] by (simp add: split_str_no_sep)
  then show ?thesis
    using split_str_nonempty [of "CHR ''/''" parent]
    by (simp add: dataset_of_dir_def Let_def nth_append last_conv_nth)
qed

lemma import_file_probes:
  "probed_paths (trace (snd (import_file env dir ds f st)))
     = probed_paths (trace st) @ (if path_exists env dir then [dir @ f] else [])"
proof -
  obtain as where as: "trace (snd (import_file env dir ds f st)) = trace st @ snd (probe_file env dir f) @ as"
    "probed_paths as = []"
    using import_file_trace [of env dir ds f st] by (elim exE conjE) (rule that)
  show ?thesis
    using as by (simp add: probed_paths_simps probe_file_actions)
qed

lemma import_files_probes:
  "\<exists>n. probed_paths (trace (snd (import_files env dir ds fs st)))
          = probed_paths (trace st) @ (if path_exists env dir then map (\<lambda>f. dir @ f) (take n fs) else [])
      \<and> (fs \<noteq> [] \<longrightarrow> 0 < n)"
proof (induction fs arbitrary: st)
  case Nil
  show ?case by simp
next
  case (Cons f fs)
  let ?st1 = "snd (import_file env dir ds f st)"
  show ?case
  proof (cases "fst (import_file env dir ds f st)")
    case (Some e)
    have "probed_paths (trace (snd (import_files env dir ds (f # fs) st)))
            = probed_paths (trace st)
              @ (if path_exists env dir then map (\<lambda>f. dir @ f) (take (Suc 0) (f # fs)) else [])"
      using Some by (simp add: import_files_Cons_Some import_file_probes)
    then show ?thesis by blast
  next
    case None
    obtain n where n: "probed_paths (trace (snd (import_files env dir ds fs ?st1)))
          = probed_paths (trace ?st1) @ (if path_exists env dir then map (\<lambda>f. dir @ f) (take n fs) else [])"
      using Cons.IH [of ?st1] by blast
    have "probed_paths (trace (snd (import_files env dir ds (f # fs) st)))
            = probed_paths (trace st)
              @ (if path_exists env dir then map (\<lambda>f. dir @ f) (take (Suc n) (f # fs)) else [])"
      using None n by (simp add: import_files_Cons_None import_file_probes)
    then show ?thesis by blast
  qed
qed

lemma importgtfs_probes:
  assumes "fst (gtfs_directory_validator env dir_option) = Some dir"
    and "dataset_of_dir dir = Inr dataset"
  shows "\<exists>n. probed_paths (snd (importgtfs env dir_option)) = map (\<lambda>file. dir @ file) (take n files_to_import)
           \<and> (click_prompt env dataset = ''y'' \<and> path_exists env dir \<longrightarrow> 0 < n)"
proof (cases "click_prompt env dataset = ''y''")
  case False
  then have "probed_paths (snd (importgtfs env dir_option)) = map (\<lambda>file. dir @ file) (take 0 files_to_import)"
    using assms
    by (simp add: importgtfs_def Let_def probed_paths_simps validator_actions)
  then show ?thesis
    using False by blast
next
  case True
  let ?st = "snd (run_loop env dir_option dir dataset)"
  obtain n where n: "probed_paths (trace ?st)
      = (if path_exists env dir then map (\<lambda>f. dir @ f) (take n files_to_import) else [])" "0 < n"
    using import_files_probes [of env dir dataset files_to_import
            "initial_state (start_trace env dir_option dataset)"]
    by (auto simp add: initial_state_def start_trace_actions files_to_import_def)
  have tr: "probed_paths (snd (importgtfs env dir_option)) = probed_paths (trace ?st)"
  proof (cases "fst (run_loop env dir_option dir dataset)")
    case (Some e)
    then show ?thesis
      using importgtfs_loop_raised [OF assms True Some] by simp
  next
    case None
    then show ?thesis
      using importgtfs_loop_passed [OF assms True None refl]
      by (simp add: probed_paths_simps static_event_def split: option.split)
  qed
  show ?thesis
  proof (cases "path_exists env dir")
    case True
    then show ?thesis
      using tr n by auto
  next
    case False
    then have "probed_paths (snd (importgtfs env dir_option)) = map (\<lambda>file. dir @ file) (take 0 files_to_import)"
      using tr n by simp
    then show ?thesis
      using False by blast
  qed
qed

lemma importgtfs_prompt:
  assumes "fst (gtfs_directory_validator env dir_option) = Some dir"
    and "dataset_of_dir dir = Inr dataset"
  shows "Prompt dataset \<in> set (snd (importgtfs env dir_option))"
proof (cases "click_prompt env dataset = ''y''")
  case False
  then show ?thesis
    using assms by (simp add: importgtfs_def Let_def)
next
  case True
  let ?st = "snd (run_loop env dir_option dir dataset)"
  obtain as where as: "trace ?st = trace (initial_state (start_trace env dir_option dataset)) @ as"
    using import_files_trace [of env dir dataset files_to_import
            "initial_state (start_trace env dir_option dataset)"]
    by (elim exE conjE) (rule that)
  then have mem: "Prompt dataset \<in> set (trace ?st)"
    by (simp add: initial_state_def start_trace_def)
  show ?thesis
  proof (cases "fst (run_loop env dir_option dir dataset)")
    case (Some e)
    then show ?thesis
      using mem importgtfs_loop_raised [OF assms True Some] by simp
  next
    case None
    then show ?thesis
      using mem importgtfs_loop_passed [OF assms True None refl] by (simp split: option.split)
  qed
qed

lemma importgtfs_reports:
  assumes "fst (gtfs_directory_validator env dir_option) = Some dir"
    and "dataset_of_dir dir = Inr dataset"
  shows "\<forall>a\<in>set (reports (snd (importgtfs env dir_option))). dict_get a ''dataset'' = Some (PStr dataset)"
proof (cases "click_prompt env dataset = ''y''")
  case False
  then show ?thesis
    using assms reports_no_event [OF validator_actions(1), of env dir_option]
    by (simp add: importgtfs_def Let_def reports_simps)
next
  case True
  have loop: "reports (trace (snd (run_loop env dir_option dir dataset))) = []"
    using run_loop_no_event by (rule reports_no_event)
  show ?thesis
  proof (cases "fst (run_loop env dir_option dir dataset)")
    case (Some e)
    then show ?thesis
      using loop importgtfs_loop_raised [OF assms True Some] by simp
  next
    case None
    then show ?thesis
      using loop importgtfs_loop_passed [OF assms True None refl]
      by (simp add: reports_simps static_event_def static_attributes_def split: option.split)
  qed
qed

lemma missing_file_reported:
  assumes "fst (gtfs_directory_validator env dir_option) = Some dir"
    and "dataset_of_dir dir = Inr dataset"
    and "click_prompt env dataset = ''y''"
    and "\<forall>f\<in>set files_to_import. file_passes env dir dataset f"
    and "file \<in> set files_to_import"
    and "\<not> fst (probe_file env dir file)"
  shows "report_entry (snd (importgtfs env dir_option)) (base_name file) = Some (missing_entry file)"
proof -
  let ?st = "snd (run_loop env dir_option dir dataset)"
  have none: "fst (run_loop env dir_option dir dataset) = None"
    using assms(4) by (rule import_files_passes)
  have entry: "map_of (attributes_of_total_rows ?st) (base_name file) = Some (missing_entry file)"
    using assms(5) distinct_base_names assms(6) none by (rule import_files_missing_entry)
  have "reports (trace ?st) = []"
    using run_loop_no_event by (rule reports_no_event)
  then have "reports (snd (importgtfs env dir_option)) = [static_attributes dataset ?st]"
    using importgtfs_loop_passed [OF assms(1-3) none refl]
    by (simp add: reports_simps static_event_def split: option.split)
  then show ?thesis
    using entry by (simp add: report_entry_def static_attributes_def)
qed

lemma import_file_finish_kept:
  "finish st \<noteq> None \<Longrightarrow> finish (snd (import_file env dir ds f st)) \<noteq> None"
  by (simp add: import_file_def Let_def emit_def record_entry_def split: sum.split option.split)

lemma import_files_finish_kept:
  "finish st \<noteq> None \<Longrightarrow> finish (snd (import_files env dir ds fs st)) \<noteq> None"
proof (induction fs arbitrary: st)
  case Nil
  then show ?case by simp
next
  case (Cons f fs)
  have one: "finish (snd (import_file env dir ds f st)) \<noteq> None"
    using Cons.prems by (rule import_file_finish_kept)
  show ?case
  proof (cases "fst (import_file env dir ds f st)")
    case None
    then show ?thesis
      using Cons.IH [OF one] by (simp add: import_files_Cons_None)
  next
    case (Some e)
    then show ?thesis
      using one by (simp add: import_files_Cons_Some)
  qed
qed

lemma import_file_imported_finish:
  assumes "file_passes env dir ds f" and "\<not> file_skipped env dir ds f"
  shows "finish (snd (import_file env dir ds f st)) \<noteq> None"
  using assms(1)
proof (cases rule: file_passes_cases)
  case missing
  then show ?thesis
    using assms(2) by (simp add: file_skipped_def)
next
  case (unsupported g r n)
  then show ?thesis
    using assms(2) by (simp add: file_skipped_def)
next
  case (imported g r n i)
  then show ?thesis
    by (simp add: import_file_imported record_entry_def emit_def)
qed

lemma import_files_finish:
  "g \<in> set fs \<Longrightarrow> fst (import_files env dir ds fs st) = None \<Longrightarrow>
   \<not> file_skipped env dir ds g \<Longrightarrow> finish (snd (import_files env dir ds fs st)) \<noteq> None"
proof (induction fs arbitrary: st)
  case Nil
  then show ?case by simp
next
  case (Cons f fs)
  let ?st1 = "snd (import_file env dir ds f st)"
  have none: "fst (import_file env dir ds f st) = None"
  proof (cases "fst (import_file env dir ds f st)")
    case None
    then show ?thesis .
  next
    case (Some e)
    then show ?thesis
      using Cons.prems(2) by (simp add: import_files_Cons_Some)
  qed
  have step: "import_files env dir ds (f # fs) st = import_files env dir ds fs ?st1"
    using none by (rule import_files_Cons_None)
  show ?case
  proof (cases "g = f")
    case True
    have "file_passes env dir ds f"
      using none by (simp add: file_passes_iff)
    then have "finish ?st1 \<noteq> None"
      using Cons.prems(3) True by (simp add: import_file_imported_finish)
    then show ?thesis
      using step by (simp add: import_files_finish_kept)
  next
    case False
    then have "g \<in> set fs"
      using Cons.prems(1) by simp
    then show ?thesis
      using Cons.IH [of ?st1] Cons.prems(2,3) step by simp
  qed
qed

lemma import_files_unsupported_entry:
  assumes "f \<in> set fs" and "distinct (map base_name fs)"
    and "fst (probe_file env dir f)"
    and "new_GTFSImporter env f dir = Inr g"
    and "get_reader env g = Inr r"
    and "get_row_count env g = Inr n"
    and "get_importer_for_file env f r n ds = Inl ValueError"
    and "fst (import_files env dir ds fs st) = None"
  shows "map_of (attributes_of_total_rows (snd (import_files env dir ds fs st))) (base_name f)
     = Some (unsupported_entry f n)"
  using assms(1,2,8)
proof (induction fs arbitrary: st)
  case Nil
  then show ?case by simp
next
  case (Cons h hs)
  let ?st1 = "snd (import_file env dir ds h st)"
  have none: "fst (import_file env dir ds h st) = None"
  proof (cases "fst (import_file env dir ds h st)")
    case None
    then show ?thesis .
  next
    case (Some e)
    then show ?thesis
      using Cons.prems(3) by (simp add: import_files_Cons_Some)
  qed
  have step: "import_files env dir ds (h # hs) st = import_files env dir ds hs ?st1"
    using none by (rule import_files_Cons_None)
  show ?case
  proof (cases "f \<in> set hs")
    case True
    then show ?thesis
      using Cons.IH [of ?st1] Cons.prems step by simp
  next
    case False
    then have fh: "h = f"
      using Cons.prems(1) by simp
    have "base_name f \<notin> base_name ` set hs"
      using Cons.prems(2) fh by simp
    then have "map_of (attributes_of_total_rows (snd (import_files env dir ds hs ?st1))) (base_name f)
                 = map_of (attributes_of_total_rows ?st1) (base_name f)"
      by (rule import_files_other_key)
    also have "\<dots> = Some (unsupported_entry f n)"
      using fh import_file_unsupported [OF assms(3-7), of st]
      by (simp add: record_entry_def map_of_dict_set)
    finally show ?thesis
      using step by simp
  qed
qed

lemma unsupported_file_reported:
  assumes "fst (gtfs_directory_validator env dir_option) = Some dir"
    and "dataset_of_dir dir = Inr dataset"
    and "click_prompt env dataset = ''y''"
    and "\<forall>f\<in>set files_to_import. file_passes env dir dataset f"
    and "file \<in> set files_to_import"
    and "fst (probe_file env dir file)"
    and "new_GTFSImporter env file dir = Inr g"
    and "get_reader env g = Inr r"
    and "get_row_count env g = Inr n"
    and "get_importer_for_file env file r n dataset = Inl ValueError"
  shows "report_entry (snd (importgtfs env dir_option)) (base_name file)
           = Some (unsupported_entry file n)"
    and "imported \<in> set files_to_import \<Longrightarrow> \<not> file_skipped env dir dataset imported \<Longrightarrow>
         fst (importgtfs env dir_option) = Returned"
proof -
  let ?st = "snd (run_loop env dir_option dir dataset)"
  have none: "fst (run_loop env dir_option dir dataset) = None"
    using assms(4) by (rule import_files_passes)
  have entry: "map_of (attributes_of_total_rows ?st) (base_name file) = Some (unsupported_entry file n)"
    using assms(5) distinct_base_names assms(6-10) none by (rule import_files_unsupported_entry)
  have "reports (trace ?st) = []"
    using run_loop_no_event by (rule reports_no_event)
  then have "reports (snd (importgtfs env dir_option)) = [static_attributes dataset ?st]"
    using importgtfs_loop_passed [OF assms(1-3) none refl]
    by (simp add: reports_simps static_event_def split: option.split)
  then show "report_entry (snd (importgtfs env dir_option)) (base_name file)
               = Some (unsupported_entry file n)"
    using entry by (simp add: report_entry_def static_attributes_def)
  show "fst (importgtfs env dir_option) = Returned"
    if "imported \<in> set files_to_import" "\<not> file_skipped env dir dataset imported"
  proof -
    have "finish ?st \<noteq> None"
      using that(1) none that(2) by (rule import_files_finish)
    then show ?thesis
      using importgtfs_loop_passed [OF assms(1-3) none refl] by (auto split: option.split)
  qed
qed

lemma passed_run_processed:
  assumes "fst (gtfs_directory_validator env dir_option) = Some dir"
    and "dataset_of_dir dir = Inr dataset"
    and "click_prompt env dataset = ''y''"
    and "\<forall>f\<in>set files_to_import. file_passes env dir dataset f"
  shows "processed_files (snd (importgtfs env dir_option)) = files_to_import"
proof -
  let ?st = "snd (run_loop env dir_option dir dataset)"
  have none: "fst (run_loop env dir_option dir dataset) = None"
    using assms(4) by (rule import_files_passes)
  obtain as where as: "trace ?st = trace (initial_state (start_trace env dir_option dataset)) @ as"
    "processed_files as = files_to_import"
    using import_files_trace [of env dir dataset files_to_import
            "initial_state (start_trace env dir_option dataset)"]
    by (elim exE conjE) (rule that, simp_all add: none)
  have pr: "processed_files (trace ?st) = files_to_import"
    using as by (simp add: initial_state_def start_trace_actions processed_files_simps)
  show ?thesis
    using importgtfs_loop_passed [OF assms(1-3) none refl] pr
    by (simp add: processed_files_simps static_event_def split: option.split)
qed

subsection \<open>Sample runs\<close>

lemma sample_env_simps:
  "path_exists (sample_env dirs files answer c i) p \<longleftrightarrow> p \<in> set dirs \<or> p \<in> set files"
  "path_isdir (sample_env dirs files answer c i) p \<longleftrightarrow> p \<in> set dirs"
  "path_isfile (sample_env dirs files answer c i) p \<longleftrightarrow> p \<in> set files"
  "click_prompt (sample_env dirs files answer c i) ds = answer"
  "new_GTFSImporter (sample_env dirs files answer c i) file dir = Inr (dir @ file)"
  "get_reader (sample_env dirs files answer c i) g = Inr g"
  "get_row_count (sample_env dirs files answer c i) g = Inr 2"
  "get_importer_for_file (sample_env dirs files answer c i) file r n ds = Inr file"
  "clear_table (sample_env dirs files answer c i) = c"
  "import_data (sample_env dirs files answer c i) = i"
  "perf_counter (sample_env dirs files answer c i) = real"
  "round2 (sample_env dirs files answer c i) x = x"
  by (simp_all add: sample_env_def)

lemma default_dataset: "dataset_of_dir ''./gtfs_data/TFI/'' = Inr ''TFI''"
  by (simp add: dataset_of_dir_def)

lemma default_validated:
  "gtfs_directory_validator env None
     = (Some ''./gtfs_data/TFI/'', [Print (No_directory_specified ''./gtfs_data/TFI/'')])"
  by (simp add: gtfs_directory_validator_def default_dir_def)

lemmas run_simps =
  importgtfs_def Let_def default_validated default_dataset import_files.simps(2) files_to_import_def
  import_file_def probe_file_def emit_def record_entry_def initial_state_def sample_env_simps
  processed_files_simps reports_simps static_event_def

lemma agency_only_events:
  "filter is_event (snd (importgtfs agency_only_env None))
     = [CreateEvent GTFS_DATABASE_UPDATED ''GTFS static data updated with latest schedules''
          agency_only_report]"
  by (simp add: run_simps agency_only_env_def agency_only_report_def static_attributes_def
        base_name_def replace_str.simps)

lemma reports_filter: "reports (filter is_event tr) = reports tr"
proof (induction tr)
  case Nil
  show ?case by simp
next
  case (Cons a tr)
  then show ?case by (cases a) (simp_all add: reports_simps)
qed

section \<open>The realtime import\<close>

lemma override_actions:
  "filter is_mutation (snd (override opt setting m)) = []"
  "filter is_event (snd (override opt setting m)) = []"
  "filter (\<lambda>a. a = ClearTableStopTrip) (snd (override opt setting m)) = []"
  "takeWhile (\<lambda>a. a \<noteq> ClearTableStopTrip) (snd (override opt setting m) @ tr)
     = snd (override opt setting m) @ takeWhile (\<lambda>a. a \<noteq> ClearTableStopTrip) tr"
  "filter is_insertion (snd (override opt setting m)) = []"
  by (cases opt; simp)+

text \<open>
  Claim C2. When \<^verbatim>\<open>get_data()\<close> returns \<^verbatim>\<open>None\<close>, the realtime command returns without
  an error; its trace has no call that changes a table (neither \<^verbatim>\<open>clear_table_stop_trip\<close>
  nor \<^verbatim>\<open>import_stop_times\<close> nor \<^verbatim>\<open>import_trips\<close>) and no event.
\<close>

theorem realtime_no_data_no_mutation:
  assumes "get_data env (realtime_importer_of env url apikey dataset) = Inr None"
  shows "fst (importrealtime env url apikey dataset) = Returned
       \<and> filter is_mutation (snd (importrealtime env url apikey dataset)) = []
       \<and> filter is_event (snd (importrealtime env url apikey dataset)) = []"
  using assms by (simp add: importrealtime_def Let_def override_actions)

theorem realtime_no_data_no_mutation_witness:
  "get_data (sample_realtime_env (Inr None))
      (realtime_importer_of (sample_realtime_env (Inr None)) None None None) = Inr None
   \<and> fst (importrealtime (sample_realtime_env (Inr None)) None None None) = Returned
   \<and> filter is_mutation (snd (importrealtime (sample_realtime_env (Inr None)) None None None)) = []
   \<and> filter is_event (snd (importrealtime (sample_realtime_env (Inr None)) None None None)) = []"
  using realtime_no_data_no_mutation [of "sample_realtime_env (Inr None)" None None None]
  by (simp add: sample_realtime_env_def)

text \<open>
  Claim C7, as stated, fails: \<^verbatim>\<open>get_data()\<close> returns the body of a refused request, a
  feed that is not \<^verbatim>\<open>None\<close> and has no key \<^verbatim>\<open>entity\<close>; line 229 raises a
  \<^verbatim>\<open>KeyError\<close> and \<^verbatim>\<open>clear_table_stop_trip()\<close> is never called.
\<close>

theorem feed_without_entity_counterexample:
  "get_data (sample_realtime_env (Inr (Some refused_request_feed)))
      (realtime_importer_of (sample_realtime_env (Inr (Some refused_request_feed))) None None None)
     = Inr (Some refused_request_feed)
   \<and> fst (importrealtime (sample_realtime_env (Inr (Some refused_request_feed))) None None None)
     = Raised KeyError
   \<and> filter (\<lambda>a. a = ClearTableStopTrip)
       (snd (importrealtime (sample_realtime_env (Inr (Some refused_request_feed))) None None None)) = []
   \<and> filter is_mutation
       (snd (importrealtime (sample_realtime_env (Inr (Some refused_request_feed))) None None None)) = []"
  by (simp add: importrealtime_def Let_def sample_realtime_env_def realtime_importer_of_def
        refused_request_feed_def entity_count_def)

text \<open>
  Claim C7, amended. In a realtime run whose \<^verbatim>\<open>get_data()\<close> returned a feed with an
  entry \<^verbatim>\<open>entity\<close> that has a length, \<^verbatim>\<open>clear_table_stop_trip()\<close> is called exactly
  once and no insertion is called before it. The calls that change a table are, in this
  order, the clear, then \<^verbatim>\<open>import_stop_times\<close> if the clear returned, then
  \<^verbatim>\<open>import_trips\<close> if \<^verbatim>\<open>import_stop_times\<close> returned, and no other: the tables are
  cleared and then filled again, never filled without the clear.
\<close>

theorem realtime_clear_once_before_insertions:
  assumes "get_data env (realtime_importer_of env url apikey dataset) = Inr (Some data)"
    and "entity_count data = Inr entities"
  shows "length (filter (\<lambda>a. a = ClearTableStopTrip) (snd (importrealtime env url apikey dataset))) = 1
       \<and> filter is_insertion
            (takeWhile (\<lambda>a. a \<noteq> ClearTableStopTrip) (snd (importrealtime env url apikey dataset))) = []
       \<and> filter is_mutation (snd (importrealtime env url apikey dataset))
           = ClearTableStopTrip #
             (case clear_table_stop_trip env (realtime_importer_of env url apikey dataset) of
                Some e \<Rightarrow> []
              | None \<Rightarrow>
                  ImportStopTimes #
                  (case import_stop_times env (realtime_importer_of env url apikey dataset) data of
                     Inl e \<Rightarrow> []
                   | Inr total_stop_times \<Rightarrow> [ImportTrips]))"
  using assms
  by (simp add: importrealtime_def Let_def override_actions realtime_event_def
        split: option.split sum.split)

theorem realtime_clear_once_before_insertions_witness:
  "get_data (sample_realtime_env (Inr (Some three_entity_feed)))
      (realtime_importer_of (sample_realtime_env (Inr (Some three_entity_feed))) None None (Some ''TFI2''))
      = Inr (Some three_entity_feed)
   \<and> entity_count three_entity_feed = Inr 3
   \<and> length (filter (\<lambda>a. a = ClearTableStopTrip)
        (snd (importrealtime (sample_realtime_env (Inr (Some three_entity_feed))) None None (Some ''TFI2'')))) = 1
   \<and> filter is_insertion (takeWhile (\<lambda>a. a \<noteq> ClearTableStopTrip)
        (snd (importrealtime (sample_realtime_env (Inr (Some three_entity_feed))) None None (Some ''TFI2'')))) = []
   \<and> filter is_mutation
        (snd (importrealtime (sample_realtime_env (Inr (Some three_entity_feed))) None None (Some ''TFI2'')))
       = [ClearTableStopTrip, ImportStopTimes, ImportTrips]"
proof -
  have h1: "get_data (sample_realtime_env (Inr (Some three_entity_feed)))
      (realtime_importer_of (sample_realtime_env (Inr (Some three_entity_feed))) None None (Some ''TFI2''))
      = Inr (Some three_entity_feed)"
    by (simp add: sample_realtime_env_def)
  have h2: "entity_count three_entity_feed = Inr 3"
    by (simp add: entity_count_def three_entity_feed_def)
  show ?thesis
    using h1 h2 realtime_clear_once_before_insertions [OF h1 h2]
    by (simp add: sample_realtime_env_def)
qed

section \<open>The static import\<close>

text \<open>
  Claim C3, as stated, fails: with all eight files present and \<^verbatim>\<open>import_data\<close> raising
  on the header of \<^verbatim>\<open>calendar.txt\<close>, an error of that one file, the run ends with the
  exception at the second file; six files are never reached and no report is emitted.
\<close>

theorem header_mismatch_counterexample:
  "fst (importgtfs header_mismatch_env None) = Raised (Exception ''HeaderMismatch'')
   \<and> processed_files (snd (importgtfs header_mismatch_env None)) = [''agency.txt'', ''calendar.txt'']
   \<and> last (snd (importgtfs header_mismatch_env None)) = ImportData ''calendar.txt''
   \<and> filter is_event (snd (importgtfs header_mismatch_env None)) = []"
  by (simp add: run_simps header_mismatch_env_def)

text \<open>
  Claim C3, amended. A static import run whose directory is accepted, whose dataset can be
  derived, that is confirmed with \<^verbatim>\<open>y\<close> at the prompt, and in which no call of an
  iteration raises (the \<^verbatim>\<open>ValueError\<close> of the registry apart) processes the eight
  files, each once, in the fixed order; it records exactly one event, after the eight
  files, and the totals of that event have the eight base names as keys, in that order.
\<close>

theorem static_run_processes_all_files:
  assumes "fst (gtfs_directory_validator env dir_option) = Some dir"
    and "dataset_of_dir dir = Inr dataset"
    and "click_prompt env dataset = ''y''"
    and "\<forall>file\<in>set files_to_import. file_passes env dir dataset file"
  shows "processed_files (snd (importgtfs env dir_option))
           = [''agency.txt'', ''calendar.txt'', ''calendar_dates.txt'', ''routes.txt'',
              ''stops.txt'', ''trips.txt'', ''stop_times.txt'', ''shapes.txt'']
       \<and> length (filter is_event (snd (importgtfs env dir_option))) = 1
       \<and> processed_files (takeWhile (\<lambda>a. \<not> is_event a) (snd (importgtfs env dir_option)))
           = files_to_import
       \<and> (\<exists>totals. map (\<lambda>a. dict_get a ''totals'') (reports (snd (importgtfs env dir_option)))
                      = [Some (PDict totals)]
                  \<and> map fst totals = map base_name files_to_import)"
proof -
  let ?st = "snd (run_loop env dir_option dir dataset)"
  have none: "fst (run_loop env dir_option dir dataset) = None"
    using assms(4) by (rule import_files_passes)
  obtain as where as: "trace ?st = trace (initial_state (start_trace env dir_option dataset)) @ as"
    "filter is_event as = []" "processed_files as = files_to_import"
    using import_files_trace [of env dir dataset files_to_import
            "initial_state (start_trace env dir_option dataset)"]
    by (elim exE conjE) (rule that, simp_all add: none)
  have ev: "filter is_event (trace ?st) = []"
    using as(1,2) by (simp add: initial_state_def start_trace_actions)
  have pr: "processed_files (trace ?st) = files_to_import"
    using as(1,3) by (simp add: initial_state_def start_trace_actions processed_files_simps)
  have run: "snd (importgtfs env dir_option) = trace ?st @ static_event dataset ?st #
               (case finish ?st of None \<Rightarrow> []
                | Some fin \<Rightarrow> [Print (Finished_import (round2 env (fin - perf_counter env 1)))])"
    using importgtfs_loop_passed [OF assms(1-3) none refl] by (simp split: option.split)
  have rest: "processed_files (static_event dataset ?st #
               (case finish ?st of None \<Rightarrow> []
                | Some fin \<Rightarrow> [Print (Finished_import (round2 env (fin - perf_counter env 1)))])) = []"
    "filter is_event (static_event dataset ?st #
               (case finish ?st of None \<Rightarrow> []
                | Some fin \<Rightarrow> [Print (Finished_import (round2 env (fin - perf_counter env 1)))]))
      = [static_event dataset ?st]"
    by (simp_all add: processed_files_simps static_event_def split: option.split)
  have c1: "processed_files (snd (importgtfs env dir_option)) = files_to_import"
    using run pr rest(1) by (simp only: processed_files_simps) simp
  have c2: "length (filter is_event (snd (importgtfs env dir_option))) = 1"
    using run ev rest(2) by simp
  have c3: "processed_files (takeWhile (\<lambda>a. \<not> is_event a) (snd (importgtfs env dir_option)))
              = files_to_import"
    using run ev pr by (simp add: takeWhile_before_event static_event_def)
  have keys: "map fst (attributes_of_total_rows ?st) = map base_name files_to_import"
    using import_files_keys [of env dir dataset files_to_import] none
    by (simp add: base_names initial_state_def)
  have reps: "reports (snd (importgtfs env dir_option)) = [static_attributes dataset ?st]"
  proof -
    have "reports (trace ?st) = []"
      using ev by (rule reports_no_event)
    then show ?thesis
      using run by (simp add: reports_simps static_event_def split: option.split)
  qed
  have c4: "\<exists>totals. map (\<lambda>a. dict_get a ''totals'') (reports (snd (importgtfs env dir_option)))
                      = [Some (PDict totals)]
                  \<and> map fst totals = map base_name files_to_import"
    using reps keys by (simp add: static_attributes_def)
  show ?thesis
    using c1 c2 c3 c4 by (simp add: files_to_import_def)
qed


theorem static_run_processes_all_files_witness:
  "fst (gtfs_directory_validator agency_only_env None) = Some ''./gtfs_data/TFI/''
   \<and> dataset_of_dir ''./gtfs_data/TFI/'' = Inr ''TFI''
   \<and> click_prompt agency_only_env ''TFI'' = ''y''
   \<and> list_all (file_passes agency_only_env ''./gtfs_data/TFI/'' ''TFI'') files_to_import
   \<and> processed_files (snd (importgtfs agency_only_env None))
           = [''agency.txt'', ''calendar.txt'', ''calendar_dates.txt'', ''routes.txt'',
              ''stops.txt'', ''trips.txt'', ''stop_times.txt'', ''shapes.txt'']
   \<and> length (filter is_event (snd (importgtfs agency_only_env None))) = 1"
proof -
  have h1: "fst (gtfs_directory_validator agency_only_env None) = Some ''./gtfs_data/TFI/''"
    by (simp add: default_validated)
  have h3: "click_prompt agency_only_env ''TFI'' = ''y''"
    by (simp add: agency_only_env_def sample_env_simps)
  have h4: "\<forall>file\<in>set files_to_import. file_passes agency_only_env ''./gtfs_data/TFI/'' ''TFI'' file"
    by (simp add: files_to_import_def file_passes_def probe_file_def agency_only_env_def sample_env_simps)
  show ?thesis
    using h1 h3 h4 default_dataset
      static_run_processes_all_files [OF h1 default_dataset h3 h4]
    by (simp add: list_all_iff)
qed

text \<open>
  Claim C1, as stated, fails: with \<^verbatim>\<open>routes.txt\<close> missing and \<^verbatim>\<open>import_data\<close>
  raising on \<^verbatim>\<open>stops.txt\<close>, the exception leaves the command. The failing call is
  the last action of the run: no entry is recorded for the file, the files after it are
  not attempted, and there is no report.
\<close>

theorem malformed_stops_counterexample:
  "fst (importgtfs malformed_stops_env None) = Raised (Exception ''RowConversionError'')
   \<and> last (snd (importgtfs malformed_stops_env None)) = ImportData ''stops.txt''
   \<and> reports (snd (importgtfs malformed_stops_env None)) = []"
  by (simp add: run_simps malformed_stops_env_def)

text \<open>
  Claim C1, amended. In a static import run that reaches its loop, an error raised by
  \<^verbatim>\<open>clear_table()\<close> or \<^verbatim>\<open>import_data()\<close> for a file of the list (the files before it
  having raised nothing) is not caught: the command ends with that error, the failing call
  is the last action of the run, and no event and no report is recorded.
\<close>

theorem import_error_aborts_run:
  assumes "fst (gtfs_directory_validator env dir_option) = Some dir"
    and "dataset_of_dir dir = Inr dataset"
    and "click_prompt env dataset = ''y''"
    and "file \<in> set files_to_import"
    and "\<forall>f\<in>set (takeWhile (\<lambda>f. f \<noteq> file) files_to_import). file_passes env dir dataset f"
    and "import_raises env dir dataset file e"
  shows "fst (importgtfs env dir_option) = Raised e
       \<and> (last (snd (importgtfs env dir_option)) = ClearTable file
          \<or> last (snd (importgtfs env dir_option)) = ImportData file)
       \<and> filter is_event (snd (importgtfs env dir_option)) = []
       \<and> reports (snd (importgtfs env dir_option)) = []"
proof -
  define pre where "pre = takeWhile (\<lambda>f. f \<noteq> file) files_to_import"
  obtain post where files: "files_to_import = pre @ file # post"
    using split_at_first [OF assms(4)] unfolding pre_def by blast
  define st0 where "st0 = initial_state (start_trace env dir_option dataset)"
  define st1 where "st1 = snd (import_files env dir dataset pre st0)"
  define st2 where "st2 = snd (import_file env dir dataset file st1)"
  have pre: "fst (import_files env dir dataset pre st0) = None"
    using assms(5) unfolding pre_def by (rule import_files_passes)
  have "import_files env dir dataset (pre @ file # post) st0
          = import_files env dir dataset (file # post) st1"
    unfolding st1_def using pre by (rule import_files_append)
  moreover have "import_files env dir dataset (file # post) st1 = (Some e, st2)"
    unfolding st2_def using import_file_raises [OF assms(6)] by (simp add: import_files_Cons_Some)
  ultimately have loop: "run_loop env dir_option dir dataset = (Some e, st2)"
    using files by (simp add: st0_def)
  have run: "importgtfs env dir_option = (Raised e, trace st2)"
    using importgtfs_loop_raised [OF assms(1-3), of e] loop by simp
  have last: "last (trace st2) = ClearTable file \<or> last (trace st2) = ImportData file"
    unfolding st2_def using import_file_raises [OF assms(6)] by blast
  have ev: "filter is_event (trace st2) = []"
    using run_loop_no_event [where env = env and dir_option = dir_option and dir = dir and dataset = dataset] loop
    by simp
  show ?thesis
    using run last ev by (simp add: reports_no_event)
qed

theorem import_error_aborts_run_witness:
  "fst (gtfs_directory_validator malformed_stops_env None) = Some ''./gtfs_data/TFI/''
   \<and> dataset_of_dir ''./gtfs_data/TFI/'' = Inr ''TFI''
   \<and> click_prompt malformed_stops_env ''TFI'' = ''y''
   \<and> ''stops.txt'' \<in> set files_to_import
   \<and> list_all (file_passes malformed_stops_env ''./gtfs_data/TFI/'' ''TFI'')
         (takeWhile (\<lambda>f. f \<noteq> ''stops.txt'') files_to_import)
   \<and> import_raises malformed_stops_env ''./gtfs_data/TFI/'' ''TFI'' ''stops.txt''
         (Exception ''RowConversionError'')
   \<and> fst (importgtfs malformed_stops_env None) = Raised (Exception ''RowConversionError'')
   \<and> filter is_event (snd (importgtfs malformed_stops_env None)) = []"
proof -
  have h1: "fst (gtfs_directory_validator malformed_stops_env None) = Some ''./gtfs_data/TFI/''"
    by (simp add: default_validated)
  have h3: "click_prompt malformed_stops_env ''TFI'' = ''y''"
    by (simp add: malformed_stops_env_def sample_env_simps)
  have h4: "''stops.txt'' \<in> set files_to_import"
    by (simp add: files_to_import_def)
  have h5: "\<forall>f\<in>set (takeWhile (\<lambda>f. f \<noteq> ''stops.txt'') files_to_import).
         file_passes malformed_stops_env ''./gtfs_data/TFI/'' ''TFI'' f"
    by (simp add: files_to_import_def file_passes_def probe_file_def malformed_stops_env_def
          sample_env_simps)
  have h6: "import_raises malformed_stops_env ''./gtfs_data/TFI/'' ''TFI'' ''stops.txt''
         (Exception ''RowConversionError'')"
    by (simp add: import_raises_def probe_file_def malformed_stops_env_def sample_env_simps)
  show ?thesis
    using h1 h3 h4 h5 h6 default_dataset
      import_error_aborts_run [OF h1 default_dataset h3 h4 h5 h6]
    by (simp add: list_all_iff)
qed

text \<open>
  Claim C8. In a static import run that reaches its loop and in which each of the eight
  files is missing or refused by the registry, the event \<^verbatim>\<open>GTFS_DATABASE_UPDATED\<close> is
  recorded, with the eight skipped entries as totals and a total time of zero; it is the
  last action of the run, which then ends with an \<^verbatim>\<open>UnboundLocalError\<close>, since
  \<^verbatim>\<open>finish\<close> was never bound.
\<close>

theorem all_skipped_run_unbound_finish:
  assumes "fst (gtfs_directory_validator env dir_option) = Some dir"
    and "dataset_of_dir dir = Inr dataset"
    and "click_prompt env dataset = ''y''"
    and "\<forall>file\<in>set files_to_import. file_skipped env dir dataset file"
  shows "fst (importgtfs env dir_option) = Raised UnboundLocalError
       \<and> is_event (last (snd (importgtfs env dir_option)))
       \<and> (\<exists>totals.
            filter is_event (snd (importgtfs env dir_option))
              = [CreateEvent GTFS_DATABASE_UPDATED ''GTFS static data updated with latest schedules''
                   (PDict [(''dataset'', PStr dataset), (''totals'', PDict totals),
                           (''total_time_taken(s)'', PFloat 0)])]
          \<and> map fst totals = map base_name files_to_import
          \<and> list_all (\<lambda>(k, v). skipped_entry v) totals)"
proof -
  let ?st = "snd (run_loop env dir_option dir dataset)"
  have passes: "\<forall>file\<in>set files_to_import. file_passes env dir dataset file"
    using assms(4) by (simp add: file_skipped_passes)
  have none: "fst (run_loop env dir_option dir dataset) = None"
    using passes by (rule import_files_passes)
  have sk: "finish ?st = None" "total_time_taken ?st = 0"
    "list_all (\<lambda>(k, v). skipped_entry v) (attributes_of_total_rows ?st)"
    using import_files_skipped [OF assms(4), of "initial_state (start_trace env dir_option dataset)"]
    by (simp_all add: initial_state_def)
  have keys: "map fst (attributes_of_total_rows ?st) = map base_name files_to_import"
    using import_files_keys [of env dir dataset files_to_import] none
    by (simp add: base_names initial_state_def)
  have run: "importgtfs env dir_option
               = (Raised UnboundLocalError, trace ?st @ [static_event dataset ?st])"
    using importgtfs_loop_passed [OF assms(1-3) none refl] sk(1) by simp
  have ev: "filter is_event (trace ?st) = []"
    by (rule run_loop_no_event)
  show ?thesis
    using run ev sk keys by (simp add: static_event_def static_attributes_def)
qed

theorem all_skipped_run_unbound_finish_witness:
  "fst (gtfs_directory_validator empty_directory_env None) = Some ''./gtfs_data/TFI/''
   \<and> dataset_of_dir ''./gtfs_data/TFI/'' = Inr ''TFI''
   \<and> click_prompt empty_directory_env ''TFI'' = ''y''
   \<and> list_all (file_skipped empty_directory_env ''./gtfs_data/TFI/'' ''TFI'') files_to_import
   \<and> fst (importgtfs empty_directory_env None) = Raised UnboundLocalError
   \<and> is_event (last (snd (importgtfs empty_directory_env None)))"
proof -
  have h1: "fst (gtfs_directory_validator empty_directory_env None) = Some ''./gtfs_data/TFI/''"
    by (simp add: default_validated)
  have h3: "click_prompt empty_directory_env ''TFI'' = ''y''"
    by (simp add: empty_directory_env_def sample_env_simps)
  have h4: "\<forall>file\<in>set files_to_import. file_skipped empty_directory_env ''./gtfs_data/TFI/'' ''TFI'' file"
    by (simp add: files_to_import_def file_skipped_def probe_file_def empty_directory_env_def
          sample_env_simps)
  show ?thesis
    using h1 h3 h4 default_dataset
      all_skipped_run_unbound_finish [OF h1 default_dataset h3 h4]
    by (simp add: list_all_iff)
qed

text \<open>
  Claim C5, as stated, fails in its count: the list has eight files, so in a directory
  that holds \<^verbatim>\<open>agency.txt\<close> alone the files reported as missing are seven, not six.
\<close>

theorem agency_only_counterexample:
  "length (filter (\<lambda>file. report_entry (snd (importgtfs agency_only_env None)) (base_name file)
                             = Some (missing_entry file)) files_to_import) = 7
   \<and> report_entry (snd (importgtfs agency_only_env None)) ''agency''
       = Some (PDict [(''time_taken(s)'', PFloat 1), (''row_count'', PInt 2)])"
proof -
  have "reports (snd (importgtfs agency_only_env None))
          = reports (filter is_event (snd (importgtfs agency_only_env None)))"
    by (simp add: reports_filter)
  then show ?thesis
    unfolding agency_only_events
    by (simp add: reports_simps report_entry_def files_to_import_def base_name_def replace_str.simps
          agency_only_report_def missing_entry_def imported_entry_def)
qed

text \<open>
  Claim C5, amended. For a file of the list that is absent on disk, the iteration records
  under the base name of the file an entry with no time taken, a row count of zero and the
  error that the file does not exist, and the loop goes on with the next file; in a run
  that reaches the report, that entry is the entry of the file in the report. In a
  directory that holds \<^verbatim>\<open>agency.txt\<close> alone this is so for the seven other files.
\<close>

theorem missing_file_skipped:
  assumes "\<not> (path_exists env dir \<and> path_isfile env (dir @ file))"
  shows "import_files env dir dataset (file # rest) st
           = import_files env dir dataset rest
               (record_entry file
                  (PDict [(''time_taken(s)'', PInt 0), (''row_count'', PInt 0),
                          (''error'', PStr (''File '' @ quote @ file @ quote @ '' does not exist.''))])
                  (emit (snd (probe_file env dir file) @ [Print (File_does_not_exist file)])
                     (st\<lparr>clock := Suc (clock st)\<rparr>)))
       \<and> (fst (gtfs_directory_validator env dir_option) = Some dir
            \<and> dataset_of_dir dir = Inr dataset
            \<and> click_prompt env dataset = ''y''
            \<and> (\<forall>f\<in>set files_to_import. file_passes env dir dataset f)
            \<and> file \<in> set files_to_import
          \<longrightarrow> report_entry (snd (importgtfs env dir_option)) (base_name file)
                = Some (missing_entry file))
       \<and> (fst (gtfs_directory_validator env dir_option) = Some dir
            \<and> dataset_of_dir dir = Inr dataset
            \<and> click_prompt env dataset = ''y''
            \<and> file_passes env dir dataset ''agency.txt''
            \<and> (\<forall>f\<in>set files_to_import. path_isfile env (dir @ f) \<longleftrightarrow> f = ''agency.txt'')
          \<longrightarrow> map (\<lambda>f. report_entry (snd (importgtfs env dir_option)) (base_name f))
                  [''calendar.txt'', ''calendar_dates.txt'', ''routes.txt'', ''stops.txt'',
                   ''trips.txt'', ''stop_times.txt'', ''shapes.txt'']
                = map (\<lambda>f. Some (missing_entry f))
                  [''calendar.txt'', ''calendar_dates.txt'', ''routes.txt'', ''stops.txt'',
                   ''trips.txt'', ''stop_times.txt'', ''shapes.txt''])"
proof -
  have absent: "\<not> fst (probe_file env dir file)"
    using assms by (simp add: probe_file_def)
  have step: "import_files env dir dataset (file # rest) st
           = import_files env dir dataset rest
               (record_entry file
                  (PDict [(''time_taken(s)'', PInt 0), (''row_count'', PInt 0),
                          (''error'', PStr (''File '' @ quote @ file @ quote @ '' does not exist.''))])
                  (emit (snd (probe_file env dir file) @ [Print (File_does_not_exist file)])
                     (st\<lparr>clock := Suc (clock st)\<rparr>)))"
    using import_file_missing [OF absent, of dataset st]
    by (simp add: import_files.simps(2) missing_entry_def)
  have run: "report_entry (snd (importgtfs env dir_option)) (base_name file) = Some (missing_entry file)"
    if "fst (gtfs_directory_validator env dir_option) = Some dir"
      "dataset_of_dir dir = Inr dataset" "click_prompt env dataset = ''y''"
      "\<forall>f\<in>set files_to_import. file_passes env dir dataset f" "file \<in> set files_to_import"
    using that absent by (rule missing_file_reported)
  have others: "map (\<lambda>f. report_entry (snd (importgtfs env dir_option)) (base_name f))
                  [''calendar.txt'', ''calendar_dates.txt'', ''routes.txt'', ''stops.txt'',
                   ''trips.txt'', ''stop_times.txt'', ''shapes.txt'']
                = map (\<lambda>f. Some (missing_entry f))
                  [''calendar.txt'', ''calendar_dates.txt'', ''routes.txt'', ''stops.txt'',
                   ''trips.txt'', ''stop_times.txt'', ''shapes.txt'']"
    if h: "fst (gtfs_directory_validator env dir_option) = Some dir"
      "dataset_of_dir dir = Inr dataset" "click_prompt env dataset = ''y''"
      "file_passes env dir dataset ''agency.txt''"
      "\<forall>f\<in>set files_to_import. path_isfile env (dir @ f) \<longleftrightarrow> f = ''agency.txt''"
  proof -
    have missing: "\<not> fst (probe_file env dir f)" if "f \<in> set files_to_import" "f \<noteq> ''agency.txt''" for f
      using h(5) that by (simp add: probe_file_def)
    have passes: "\<forall>f\<in>set files_to_import. file_passes env dir dataset f"
    proof
      fix f assume f: "f \<in> set files_to_import"
      show "file_passes env dir dataset f"
      proof (cases "f = ''agency.txt''")
        case True
        then show ?thesis using h(4) by simp
      next
        case False
        then show ?thesis using missing [OF f] by (simp add: file_passes_def)
      qed
    qed
    have one: "report_entry (snd (importgtfs env dir_option)) (base_name f) = Some (missing_entry f)"
      if "f \<in> set files_to_import" "f \<noteq> ''agency.txt''" for f
      using h(1-3) passes that(1) missing [OF that] by (rule missing_file_reported)
    show ?thesis
      by (simp add: one files_to_import_def)
  qed
  show ?thesis
    using step run others by blast
qed

theorem missing_file_skipped_witness:
  "\<not> (path_exists agency_only_env ''./gtfs_data/TFI/''
        \<and> path_isfile agency_only_env (''./gtfs_data/TFI/'' @ ''routes.txt''))
   \<and> fst (gtfs_directory_validator agency_only_env None) = Some ''./gtfs_data/TFI/''
   \<and> dataset_of_dir ''./gtfs_data/TFI/'' = Inr ''TFI''
   \<and> click_prompt agency_only_env ''TFI'' = ''y''
   \<and> list_all (file_passes agency_only_env ''./gtfs_data/TFI/'' ''TFI'') files_to_import
   \<and> ''routes.txt'' \<in> set files_to_import
   \<and> file_passes agency_only_env ''./gtfs_data/TFI/'' ''TFI'' ''agency.txt''
   \<and> list_all (\<lambda>f. path_isfile agency_only_env (''./gtfs_data/TFI/'' @ f) \<longleftrightarrow> f = ''agency.txt'')
         files_to_import
   \<and> report_entry (snd (importgtfs agency_only_env None)) (base_name ''routes.txt'')
       = Some (missing_entry ''routes.txt'')
   \<and> map (\<lambda>f. report_entry (snd (importgtfs agency_only_env None)) (base_name f))
         [''calendar.txt'', ''calendar_dates.txt'', ''routes.txt'', ''stops.txt'',
          ''trips.txt'', ''stop_times.txt'', ''shapes.txt'']
       = map (\<lambda>f. Some (missing_entry f))
         [''calendar.txt'', ''calendar_dates.txt'', ''routes.txt'', ''stops.txt'',
          ''trips.txt'', ''stop_times.txt'', ''shapes.txt'']"
proof -
  have h0: "\<not> (path_exists agency_only_env ''./gtfs_data/TFI/''
        \<and> path_isfile agency_only_env (''./gtfs_data/TFI/'' @ ''routes.txt''))"
    by (simp add: agency_only_env_def sample_env_simps)
  have h1: "fst (gtfs_directory_validator agency_only_env None) = Some ''./gtfs_data/TFI/''"
    by (simp add: default_validated)
  have h3: "click_prompt agency_only_env ''TFI'' = ''y''"
    by (simp add: agency_only_env_def sample_env_simps)
  have h4: "\<forall>f\<in>set files_to_import. file_passes agency_only_env ''./gtfs_data/TFI/'' ''TFI'' f"
    by (simp add: files_to_import_def file_passes_def probe_file_def agency_only_env_def sample_env_simps)
  have h5: "''routes.txt'' \<in> set files_to_import"
    by (simp add: files_to_import_def)
  have h6: "file_passes agency_only_env ''./gtfs_data/TFI/'' ''TFI'' ''agency.txt''"
    using h4 by (simp add: files_to_import_def)
  have h7: "\<forall>f\<in>set files_to_import.
      path_isfile agency_only_env (''./gtfs_data/TFI/'' @ f) \<longleftrightarrow> f = ''agency.txt''"
    by (simp add: files_to_import_def agency_only_env_def sample_env_simps)
  show ?thesis
    using h0 h1 h3 h4 h5 h6 h7 default_dataset
      missing_file_skipped [OF h0, of "''TFI''" "[]" "initial_state []" None]
    by (simp add: list_all_iff)
qed

text \<open>
  Claim C9. When the directory given to the static import does not exist or is not a
  directory, \<^verbatim>\<open>gtfs_directory_validator\<close> prints the error and returns \<^verbatim>\<open>None\<close>, and
  \<^verbatim>\<open>importgtfs\<close> ends with an \<^verbatim>\<open>AttributeError\<close>: the whole run is the first message,
  the probes of the directory and the error message, with no prompt, no call that changes
  a table, no report entry and no event.
\<close>

theorem invalid_directory_aborts:
  assumes "d \<noteq> []" and "\<not> (path_exists env d \<and> path_isdir env d)"
  shows "gtfs_directory_validator env (Some d)
           = (None, (if path_exists env d then [PathExists d, PathIsDir d] else [PathExists d])
                    @ [Print (Directory_does_not_exist d)])
       \<and> importgtfs env (Some d)
           = (Raised AttributeError,
              [Print Importing_GTFS_data]
              @ (if path_exists env d then [PathExists d, PathIsDir d] else [PathExists d])
              @ [Print (Directory_does_not_exist d)])"
  using assms by (simp add: importgtfs_def gtfs_directory_validator_def probe_dir_def)

theorem invalid_directory_aborts_witness:
  "''nowhere/'' \<noteq> []
   \<and> \<not> (path_exists empty_directory_env ''nowhere/'' \<and> path_isdir empty_directory_env ''nowhere/'')
   \<and> importgtfs empty_directory_env (Some ''nowhere/'')
       = (Raised AttributeError,
          [Print Importing_GTFS_data, PathExists ''nowhere/'', Print (Directory_does_not_exist ''nowhere/'')])"
  using invalid_directory_aborts [of "''nowhere/''" empty_directory_env]
  by (simp add: empty_directory_env_def sample_env_simps)

text \<open>
  Claim C6, as stated, fails in its last part: with a registry that does not know
  \<^verbatim>\<open>agency.txt\<close> and a directory that holds \<^verbatim>\<open>agency.txt\<close> alone, the refusal is
  caught, the entry is recorded and the seven other files are processed, but the command
  then ends with an \<^verbatim>\<open>UnboundLocalError\<close>.
\<close>

theorem refused_file_counterexample:
  "get_importer_for_file agency_refused_env ''agency.txt'' ''./gtfs_data/TFI/agency.txt'' 2 ''TFI''
     = Inl ValueError
   \<and> processed_files (snd (importgtfs agency_refused_env None)) = files_to_import
   \<and> report_entry (snd (importgtfs agency_refused_env None)) ''agency''
     = Some (unsupported_entry ''agency.txt'' 2)
   \<and> fst (importgtfs agency_refused_env None) = Raised UnboundLocalError"
  by (simp add: run_simps agency_refused_env_def registry_env_def table_get_importer_for_file_def
        importer_table_def report_entry_def static_attributes_def base_name_def replace_str.simps)

text \<open>
  Claim C6, amended. A registry that dispatches on a fixed table fails, with the
  \<^verbatim>\<open>ValueError\<close> that the command catches, on a filename outside its table. The
  iteration then records an entry with no time taken, the row count of the file and the
  error that the file has no supported importer, and the loop goes on with the remaining
  files. In a run that reaches its loop and in which no other call raises, all eight files
  are processed, that entry is the entry of the file in the report, and the command
  returns without an error when some file of the list is imported.
\<close>

theorem unsupported_file_skipped:
  assumes "get_importer_for_file env = table_get_importer_for_file table"
    and "file \<notin> set (map fst table)"
    and "path_exists env dir \<and> path_isfile env (dir @ file)"
    and "new_GTFSImporter env file dir = Inr g"
    and "get_reader env g = Inr reader"
    and "get_row_count env g = Inr row_count"
  shows "get_importer_for_file env file reader row_count dataset = Inl ValueError
       \<and> import_files env dir dataset (file # rest) st
           = import_files env dir dataset rest
               (record_entry file
                  (PDict [(''time_taken(s)'', PInt 0), (''row_count'', PInt row_count),
                          (''error'', PStr (''File '' @ quote @ file @ quote
                                            @ '' does not have a supported importer.''))])
                  (emit [PathExists dir, PathIsFile (dir @ file), GTFSImporter file dir,
                         GetReader file, GetRowCount file, GetImporterForFile file row_count dataset,
                         Print (No_supported_importer file)]
                     (st\<lparr>clock := Suc (clock st)\<rparr>)))
       \<and> (fst (gtfs_directory_validator env dir_option) = Some dir
            \<and> dataset_of_dir dir = Inr dataset
            \<and> click_prompt env dataset = ''y''
            \<and> file \<in> set files_to_import
            \<and> (\<forall>f\<in>set files_to_import. file_passes env dir dataset f)
          \<longrightarrow> processed_files (snd (importgtfs env dir_option)) = files_to_import
              \<and> report_entry (snd (importgtfs env dir_option)) (base_name file)
                  = Some (unsupported_entry file row_count)
              \<and> (imported \<in> set files_to_import \<and> \<not> file_skipped env dir dataset imported
                   \<longrightarrow> fst (importgtfs env dir_option) = Returned))
       \<and> (spec_get_importer_for_file name reader' row_count' dataset' = Inl ValueError)
           = (name \<notin> set files_to_import)"
proof -
  have spec: "(spec_get_importer_for_file name reader' row_count' dataset' = Inl ValueError)
           = (name \<notin> set files_to_import)"
    by (simp add: spec_get_importer_for_file_def table_get_importer_for_file_def importer_table_def
          files_to_import_def)
  have "map_of table file = None"
    using assms(2) by (simp add: map_of_eq_None_iff)
  then have refused: "get_importer_for_file env file reader row_count dataset = Inl ValueError"
    using assms(1) by (simp add: table_get_importer_for_file_def)
  have present: "fst (probe_file env dir file)"
    using assms(3) by (simp add: probe_file_def)
  have step: "import_files env dir dataset (file # rest) st
           = import_files env dir dataset rest
               (record_entry file
                  (PDict [(''time_taken(s)'', PInt 0), (''row_count'', PInt row_count),
                          (''error'', PStr (''File '' @ quote @ file @ quote
                                            @ '' does not have a supported importer.''))])
                  (emit [PathExists dir, PathIsFile (dir @ file), GTFSImporter file dir,
                         GetReader file, GetRowCount file, GetImporterForFile file row_count dataset,
                         Print (No_supported_importer file)]
                     (st\<lparr>clock := Suc (clock st)\<rparr>)))"
    using import_file_unsupported [OF present assms(4-6) refused, of st] assms(3)
    by (simp add: import_files.simps(2) unsupported_entry_def probe_file_def)
  have run: "processed_files (snd (importgtfs env dir_option)) = files_to_import
              \<and> report_entry (snd (importgtfs env dir_option)) (base_name file)
                  = Some (unsupported_entry file row_count)
              \<and> (imported \<in> set files_to_import \<and> \<not> file_skipped env dir dataset imported
                   \<longrightarrow> fst (importgtfs env dir_option) = Returned)"
    if h: "fst (gtfs_directory_validator env dir_option) = Some dir"
      "dataset_of_dir dir = Inr dataset" "click_prompt env dataset = ''y''"
      "file \<in> set files_to_import" "\<forall>f\<in>set files_to_import. file_passes env dir dataset f"
    using passed_run_processed [OF h(1-3) h(5)]
      unsupported_file_reported [OF h(1-3) h(5) h(4) present assms(4-6) refused]
    by blast
  show ?thesis
    using refused step run spec by blast
qed

theorem unsupported_file_skipped_witness:
  "get_importer_for_file agency_refused_calendar_env = table_get_importer_for_file (tl importer_table)
   \<and> ''agency.txt'' \<notin> set (map fst (tl importer_table))
   \<and> path_exists agency_refused_calendar_env ''./gtfs_data/TFI/''
   \<and> path_isfile agency_refused_calendar_env (''./gtfs_data/TFI/'' @ ''agency.txt'')
   \<and> new_GTFSImporter agency_refused_calendar_env ''agency.txt'' ''./gtfs_data/TFI/''
       = Inr ''./gtfs_data/TFI/agency.txt''
   \<and> get_reader agency_refused_calendar_env ''./gtfs_data/TFI/agency.txt''
       = Inr ''./gtfs_data/TFI/agency.txt''
   \<and> get_row_count agency_refused_calendar_env ''./gtfs_data/TFI/agency.txt'' = Inr 2
   \<and> fst (gtfs_directory_validator agency_refused_calendar_env None) = Some ''./gtfs_data/TFI/''
   \<and> dataset_of_dir ''./gtfs_data/TFI/'' = Inr ''TFI''
   \<and> click_prompt agency_refused_calendar_env ''TFI'' = ''y''
   \<and> ''agency.txt'' \<in> set files_to_import
   \<and> list_all (file_passes agency_refused_calendar_env ''./gtfs_data/TFI/'' ''TFI'') files_to_import
   \<and> ''calendar.txt'' \<in> set files_to_import
   \<and> \<not> file_skipped agency_refused_calendar_env ''./gtfs_data/TFI/'' ''TFI'' ''calendar.txt''
   \<and> get_importer_for_file agency_refused_calendar_env ''agency.txt'' ''./gtfs_data/TFI/agency.txt'' 2
         ''TFI'' = Inl ValueError
   \<and> processed_files (snd (importgtfs agency_refused_calendar_env None)) = files_to_import
   \<and> report_entry (snd (importgtfs agency_refused_calendar_env None)) (base_name ''agency.txt'')
       = Some (unsupported_entry ''agency.txt'' 2)
   \<and> fst (importgtfs agency_refused_calendar_env None) = Returned"
proof -
  have h1: "get_importer_for_file agency_refused_calendar_env
              = table_get_importer_for_file (tl importer_table)"
    by (simp add: agency_refused_calendar_env_def registry_env_def)
  have h2: "''agency.txt'' \<notin> set (map fst (tl importer_table))"
    by (simp add: importer_table_def)
  have h3: "path_exists agency_refused_calendar_env ''./gtfs_data/TFI/''
      \<and> path_isfile agency_refused_calendar_env (''./gtfs_data/TFI/'' @ ''agency.txt'')"
    by (simp add: agency_refused_calendar_env_def registry_env_def)
  have h4: "new_GTFSImporter agency_refused_calendar_env ''agency.txt'' ''./gtfs_data/TFI/''
       = Inr ''./gtfs_data/TFI/agency.txt''"
    by (simp add: agency_refused_calendar_env_def registry_env_def)
  have h5: "get_reader agency_refused_calendar_env ''./gtfs_data/TFI/agency.txt''
       = Inr ''./gtfs_data/TFI/agency.txt''"
    by (simp add: agency_refused_calendar_env_def registry_env_def)
  have h6: "get_row_count agency_refused_calendar_env ''./gtfs_data/TFI/agency.txt'' = Inr 2"
    by (simp add: agency_refused_calendar_env_def registry_env_def)
  have r1: "fst (gtfs_directory_validator agency_refused_calendar_env None) = Some ''./gtfs_data/TFI/''"
    by (simp add: default_validated)
  have r3: "click_prompt agency_refused_calendar_env ''TFI'' = ''y''"
    by (simp add: agency_refused_calendar_env_def registry_env_def)
  have r4: "''agency.txt'' \<in> set files_to_import" "''calendar.txt'' \<in> set files_to_import"
    by (simp_all add: files_to_import_def)
  have r5: "\<forall>f\<in>set files_to_import.
      file_passes agency_refused_calendar_env ''./gtfs_data/TFI/'' ''TFI'' f"
    by (simp add: files_to_import_def file_passes_def probe_file_def agency_refused_calendar_env_def
          registry_env_def table_get_importer_for_file_def importer_table_def)
  have r6: "\<not> file_skipped agency_refused_calendar_env ''./gtfs_data/TFI/'' ''TFI'' ''calendar.txt''"
    by (simp add: file_skipped_def probe_file_def agency_refused_calendar_env_def
          registry_env_def table_get_importer_for_file_def importer_table_def)
  show ?thesis
    using h1 h2 h3 h4 h5 h6 r1 r3 r4 r5 r6 default_dataset
      unsupported_file_skipped [OF h1 h2 h3 h4 h5 h6, of "''TFI''" "[]" "initial_state []" None
        "''calendar.txt''" "''fare_rules.txt''" "''reader''" 0 "''TFI''"]
    by (simp add: list_all_iff)
qed

text \<open>
  Claim C4, as stated, fails in the spelling of three keys: the reports that the two
  commands record have no key \<^verbatim>\<open>total_time_taken_s\<close> and no key \<^verbatim>\<open>time_taken_s\<close>; the
  code writes \<^verbatim>\<open>total_time_taken(s)\<close> and \<^verbatim>\<open>time_taken(s)\<close>.
\<close>

theorem report_keys_counterexample:
  "CreateEvent GTFS_DATABASE_UPDATED ''GTFS static data updated with latest schedules'' agency_only_report
     \<in> set (snd (importgtfs agency_only_env None))
   \<and> \<not> documented_static_keys agency_only_report
   \<and> dict_get agency_only_report ''total_time_taken_s'' = None
   \<and> dict_get agency_only_report ''total_time_taken(s)'' = Some (PFloat 1)
   \<and> report_entry (snd (importgtfs agency_only_env None)) ''agency'' = Some (imported_entry 1 2)
   \<and> \<not> documented_entry_keys (imported_entry 1 2)
   \<and> dict_get (imported_entry 1 2) ''time_taken_s'' = None
   \<and> dict_get (imported_entry 1 2) ''time_taken(s)'' = Some (PFloat 1)
   \<and> CreateEvent REALTIME_DATABASE_UPDATED ''Realtime database updated with new realtime information''
       (realtime_attributes ''TFI'' 3 7 1)
     \<in> set (snd (importrealtime (sample_realtime_env (Inr (Some three_entity_feed))) None None None))
   \<and> \<not> documented_realtime_keys (realtime_attributes ''TFI'' 3 7 1)
   \<and> dict_get (realtime_attributes ''TFI'' 3 7 1) ''time_taken_s'' = None"
proof -
  have "set (filter is_event (snd (importgtfs agency_only_env None)))
          \<subseteq> set (snd (importgtfs agency_only_env None))"
    by simp
  then have static: "CreateEvent GTFS_DATABASE_UPDATED ''GTFS static data updated with latest schedules''
      agency_only_report \<in> set (snd (importgtfs agency_only_env None))"
    unfolding agency_only_events by simp
  have "reports (snd (importgtfs agency_only_env None))
          = reports (filter is_event (snd (importgtfs agency_only_env None)))"
    by (simp add: reports_filter)
  then have entry: "report_entry (snd (importgtfs agency_only_env None)) ''agency''
      = Some (imported_entry 1 2)"
    unfolding agency_only_events
    by (simp add: reports_simps report_entry_def agency_only_report_def)
  have realtime: "CreateEvent REALTIME_DATABASE_UPDATED
       ''Realtime database updated with new realtime information'' (realtime_attributes ''TFI'' 3 7 1)
     \<in> set (snd (importrealtime (sample_realtime_env (Inr (Some three_entity_feed))) None None None))"
    by (simp add: importrealtime_def Let_def sample_realtime_env_def realtime_importer_of_def
          realtime_event_def entity_count_def three_entity_feed_def)
  show ?thesis
    using static entry realtime
    by (simp add: documented_static_keys_def documented_entry_keys_def documented_realtime_keys_def
          agency_only_report_def imported_entry_def realtime_attributes_def)
qed

text \<open>
  Claim C4, amended. Every event that the static import records has the type
  \<^verbatim>\<open>GTFS_DATABASE_UPDATED\<close> and as attributes a dictionary with the keys \<^verbatim>\<open>dataset\<close>,
  \<^verbatim>\<open>totals\<close> and \<^verbatim>\<open>total_time_taken(s)\<close>, where the totals go from base names of the
  files of the list to entries with the keys \<^verbatim>\<open>time_taken(s)\<close>, \<^verbatim>\<open>row_count\<close> and, for
  a skipped file, \<^verbatim>\<open>error\<close>. Every event that the realtime import records has the type
  \<^verbatim>\<open>REALTIME_DATABASE_UPDATED\<close> and as attributes a dictionary with the keys
  \<^verbatim>\<open>dataset\<close>, \<^verbatim>\<open>total_trips\<close>, \<^verbatim>\<open>total_stop_times\<close> and \<^verbatim>\<open>time_taken(s)\<close>.
\<close>

theorem reports_have_documented_shape:
  "(CreateEvent t m a \<in> set (snd (importgtfs env dir_option))
      \<longrightarrow> t = GTFS_DATABASE_UPDATED \<and> static_report_shape a)
   \<and> (CreateEvent t' m' a' \<in> set (snd (importrealtime renv url apikey dataset))
      \<longrightarrow> t' = REALTIME_DATABASE_UPDATED \<and> realtime_report_shape a')"
  using importgtfs_events [of t m a env dir_option]
    importrealtime_events [of t' m' a' renv url apikey dataset]
  by blast

theorem reports_have_documented_shape_witness:
  "CreateEvent GTFS_DATABASE_UPDATED ''GTFS static data updated with latest schedules'' agency_only_report
     \<in> set (snd (importgtfs agency_only_env None))
   \<and> static_report_shape agency_only_report
   \<and> CreateEvent REALTIME_DATABASE_UPDATED ''Realtime database updated with new realtime information''
       (realtime_attributes ''TFI'' 3 7 1)
     \<in> set (snd (importrealtime (sample_realtime_env (Inr (Some three_entity_feed))) None None None))
   \<and> realtime_report_shape (realtime_attributes ''TFI'' 3 7 1)"
proof -
  have "set (filter is_event (snd (importgtfs agency_only_env None)))
          \<subseteq> set (snd (importgtfs agency_only_env None))"
    by simp
  then have h1: "CreateEvent GTFS_DATABASE_UPDATED ''GTFS static data updated with latest schedules''
      agency_only_report \<in> set (snd (importgtfs agency_only_env None))"
    unfolding agency_only_events by simp
  have h2: "CreateEvent REALTIME_DATABASE_UPDATED ''Realtime database updated with new realtime information''
       (realtime_attributes ''TFI'' 3 7 1)
     \<in> set (snd (importrealtime (sample_realtime_env (Inr (Some three_entity_feed))) None None None))"
    by (simp add: importrealtime_def Let_def sample_realtime_env_def realtime_importer_of_def
          realtime_event_def entity_count_def three_entity_feed_def)
  show ?thesis
    using h1 h2
      reports_have_documented_shape
        [of GTFS_DATABASE_UPDATED "''GTFS static data updated with latest schedules''" agency_only_report
            agency_only_env None
            REALTIME_DATABASE_UPDATED "''Realtime database updated with new realtime information''"
            "realtime_attributes ''TFI'' 3 7 1"
            "sample_realtime_env (Inr (Some three_entity_feed))" None None None]
    by simp
qed

text \<open>
  Claim C10, as stated, fails for a directory string without any \<^verbatim>\<open>/\<close>: the
  existing directory \<^verbatim>\<open>TFI\<close> is accepted by the validator, its split has one segment,
  and the command ends with an \<^verbatim>\<open>IndexError\<close> before the prompt, with no dataset.
\<close>

theorem directory_without_slash_counterexample:
  "gtfs_directory_validator (directory_env ''TFI'' []) (Some ''TFI'')
     = (Some ''TFI'', [PathExists ''TFI'', PathIsDir ''TFI'', Print (Using_directory ''TFI'')])
   \<and> importgtfs (directory_env ''TFI'' []) (Some ''TFI'')
     = (Raised IndexError,
        [Print Importing_GTFS_data, PathExists ''TFI'', PathIsDir ''TFI'', Print (Using_directory ''TFI'')])"
  by (simp add: importgtfs_def gtfs_directory_validator_def probe_dir_def dataset_of_dir_def
        directory_env_def sample_env_simps)

text \<open>
  Claim C10, amended. For a static run whose directory is accepted and has the form
  \<open>parent/leaf\<close> with no \<^verbatim>\<open>/\<close> in \<open>leaf\<close> (so \<open>leaf\<close> is empty when the string ends
  with \<^verbatim>\<open>/\<close>), the dataset is the last segment of \<open>parent\<close>, that is, the second-to-last
  segment of the string; it is the dataset of the prompt and of every report. The paths
  that the run probes are the directory string followed by the filename, for a prefix of
  the list that is not empty once the run is confirmed and the directory exists. The
  default directory gives the dataset \<^verbatim>\<open>TFI\<close>. So a directory given without its trailing
  \<^verbatim>\<open>/\<close> gives the name of the parent directory as dataset and paths such as
  \<^verbatim>\<open>gtfs_data/TFIagency.txt\<close>.
\<close>

theorem dataset_and_paths_from_directory_string:
  assumes "fst (gtfs_directory_validator env dir_option) = Some dir"
    and "dir = parent @ ''/'' @ leaf"
    and "CHR ''/'' \<notin> set leaf"
  shows "dataset_of_dir dir = Inr (last (split_str (CHR ''/'') parent))
       \<and> Prompt (last (split_str (CHR ''/'') parent)) \<in> set (snd (importgtfs env dir_option))
       \<and> (\<forall>a\<in>set (reports (snd (importgtfs env dir_option))).
             dict_get a ''dataset'' = Some (PStr (last (split_str (CHR ''/'') parent))))
       \<and> (\<exists>n. probed_paths (snd (importgtfs env dir_option))
                  = map (\<lambda>file. dir @ file) (take n files_to_import)
              \<and> (click_prompt env (last (split_str (CHR ''/'') parent)) = ''y'' \<and> path_exists env dir
                   \<longrightarrow> 0 < n))
       \<and> dataset_of_dir default_dir = Inr ''TFI''"
proof -
  have ds: "dataset_of_dir dir = Inr (last (split_str (CHR ''/'') parent))"
    unfolding assms(2) using assms(3) by (rule dataset_of_dir_slash)
  show ?thesis
    using ds importgtfs_prompt [OF assms(1) ds] importgtfs_reports [OF assms(1) ds]
      importgtfs_probes [OF assms(1) ds] default_dataset
    by (simp add: default_dir_def)
qed

theorem dataset_and_paths_witness:
  "fst (gtfs_directory_validator (directory_env ''gtfs_data/TFI'' []) (Some ''gtfs_data/TFI''))
     = Some ''gtfs_data/TFI''
   \<and> ''gtfs_data/TFI'' = ''gtfs_data'' @ ''/'' @ ''TFI''
   \<and> CHR ''/'' \<notin> set ''TFI''
   \<and> dataset_of_dir ''gtfs_data/TFI'' = Inr ''gtfs_data''
   \<and> Prompt ''gtfs_data'' \<in> set (snd (importgtfs (directory_env ''gtfs_data/TFI'' []) (Some ''gtfs_data/TFI'')))
   \<and> click_prompt (directory_env ''gtfs_data/TFI'' []) ''gtfs_data'' = ''y''
   \<and> path_exists (directory_env ''gtfs_data/TFI'' []) ''gtfs_data/TFI''
   \<and> (\<exists>n>0. probed_paths (snd (importgtfs (directory_env ''gtfs_data/TFI'' []) (Some ''gtfs_data/TFI'')))
                = map (\<lambda>file. ''gtfs_data/TFI'' @ file) (take n files_to_import))
   \<and> ''gtfs_data/TFI'' @ ''agency.txt'' = ''gtfs_data/TFIagency.txt''"
proof -
  have h1: "fst (gtfs_directory_validator (directory_env ''gtfs_data/TFI'' []) (Some ''gtfs_data/TFI''))
     = Some ''gtfs_data/TFI''"
    by (simp add: gtfs_directory_validator_def probe_dir_def directory_env_def sample_env_simps)
  have h2: "''gtfs_data/TFI'' = ''gtfs_data'' @ ''/'' @ ''TFI''"
    by simp
  have h3: "CHR ''/'' \<notin> set ''TFI''"
    by simp
  have e: "click_prompt (directory_env ''gtfs_data/TFI'' []) ''gtfs_data'' = ''y''"
      "path_exists (directory_env ''gtfs_data/TFI'' []) ''gtfs_data/TFI''"
      "last (split_str (CHR ''/'') ''gtfs_data'') = ''gtfs_data''"
    by (simp_all add: directory_env_def sample_env_simps)
  show ?thesis
    using h1 h3 e dataset_and_paths_from_directory_string [OF h1 h2 h3]
    by auto
qed

end
